theory Spec2Isabelle
  imports Complex_Main
begin

section \<open>JavaScript values and built-ins used by salary_setting_form.js\<close>

text \<open>
  The script reads every value from form controls as a string and turns it into a
  JavaScript Number with \<open>parseFloat\<close> or \<open>parseInt\<close>. A Number is modelled as
  \<open>NaN\<close>, one of the two infinities, or a finite value. Finite values are exact
  rationals: the rounding of IEEE-754 doubles (and the sign of zero) is not modelled.
  Strings are lists of 8-bit characters, read as Latin-1 code units.
\<close>

datatype jsnum = NaN | PosInfinity | NegInfinity | Finite rat

text \<open>A parsed JSON value. An object keeps its properties in enumeration order.\<close>

datatype json =
    JNull
  | JBool bool
  | JNum rat
  | JStr string
  | JArr "json list"
  | JObj "(string \<times> json) list"

subsection \<open>Number arithmetic\<close>

fun isNaN :: "jsnum \<Rightarrow> bool" where
  "isNaN NaN = True"
| "isNaN _ = False"

fun js_neg :: "jsnum \<Rightarrow> jsnum" where
  "js_neg NaN = NaN"
| "js_neg PosInfinity = NegInfinity"
| "js_neg NegInfinity = PosInfinity"
| "js_neg (Finite x) = Finite (- x)"

fun js_add :: "jsnum \<Rightarrow> jsnum \<Rightarrow> jsnum" where
  "js_add NaN _ = NaN"
| "js_add _ NaN = NaN"
| "js_add PosInfinity NegInfinity = NaN"
| "js_add NegInfinity PosInfinity = NaN"
| "js_add PosInfinity _ = PosInfinity"
| "js_add _ PosInfinity = PosInfinity"
| "js_add NegInfinity _ = NegInfinity"
| "js_add _ NegInfinity = NegInfinity"
| "js_add (Finite x) (Finite y) = Finite (x + y)"

definition js_sub :: "jsnum \<Rightarrow> jsnum \<Rightarrow> jsnum" where
  "js_sub a b = js_add a (js_neg b)"

fun Math_abs :: "jsnum \<Rightarrow> jsnum" where
  "Math_abs NaN = NaN"
| "Math_abs PosInfinity = PosInfinity"
| "Math_abs NegInfinity = PosInfinity"
| "Math_abs (Finite x) = Finite \<bar>x\<bar>"

text \<open>\<open>a < b\<close> on Numbers: false whenever an operand is \<open>NaN\<close>.\<close>

fun js_less :: "jsnum \<Rightarrow> jsnum \<Rightarrow> bool" where
  "js_less NaN _ = False"
| "js_less _ NaN = False"
| "js_less PosInfinity _ = False"
| "js_less _ NegInfinity = False"
| "js_less NegInfinity _ = True"
| "js_less _ PosInfinity = True"
| "js_less (Finite x) (Finite y) = (x < y)"


text \<open>Truthiness of a Number, as \<open>||\<close> tests it: \<open>NaN\<close> and zero are falsy.\<close>

fun num_truthy :: "jsnum \<Rightarrow> bool" where
  "num_truthy NaN = False"
| "num_truthy (Finite x) = (x \<noteq> 0)"
| "num_truthy _ = True"

text \<open>\<open>(500000 * percentage) / 100\<close>, the example amount shown beside a component.\<close>

fun example_amount :: "jsnum \<Rightarrow> jsnum" where
  "example_amount (Finite x) = Finite (500000 * x / 100)"
| "example_amount n = n"

text \<open>What \<open>JSON.stringify\<close> writes for a Number: \<open>null\<close> unless it is finite.\<close>

fun json_of_num :: "jsnum \<Rightarrow> json" where
  "json_of_num (Finite x) = JNum x"
| "json_of_num _ = JNull"

subsection \<open>Characters and strings\<close>

text \<open>
  White space as \<open>String.prototype.trim\<close> and the regular expression class \<open>\s\<close> see
  it, within Latin-1: TAB, LF, VT, FF, CR, SPACE and NO-BREAK SPACE.
\<close>

definition is_space :: "char \<Rightarrow> bool" where
  "is_space c = (of_char c \<in> {9, 10, 11, 12, 13, 32, 160 :: nat})"

definition js_trim :: "string \<Rightarrow> string" where
  "js_trim s = rev (dropWhile is_space (rev (dropWhile is_space s)))"

text \<open>\<open>toLowerCase\<close> within Latin-1: A-Z, and U+00C0..U+00DE except the multiplication sign.\<close>

definition lower_char :: "char \<Rightarrow> char" where
  "lower_char c =
     (let n = (of_char c :: nat)
      in if (65 \<le> n \<and> n \<le> 90) \<or> (192 \<le> n \<and> n \<le> 222 \<and> n \<noteq> 215)
         then char_of (n + 32) else c)"

definition toLowerCase :: "string \<Rightarrow> string" where
  "toLowerCase s = map lower_char s"

text \<open>\<open>s.replace(/\s+/g, '_')\<close>: every maximal run of white space becomes one underscore.
  The flag records that the previous character belonged to a run already replaced.\<close>

primrec replace_spaces :: "bool \<Rightarrow> string \<Rightarrow> string" where
  "replace_spaces in_run [] = []"
| "replace_spaces in_run (c # cs) =
     (if is_space c
      then (if in_run then [] else ''_'') @ replace_spaces True cs
      else c # replace_spaces False cs)"

subsection \<open>Decimal digits\<close>

definition is_digit :: "char \<Rightarrow> bool" where
  "is_digit c = (48 \<le> (of_char c :: nat) \<and> (of_char c :: nat) \<le> 57)"

definition digit_val :: "char \<Rightarrow> nat" where
  "digit_val c = of_char c - 48"

definition digit_char :: "nat \<Rightarrow> char" where
  "digit_char d = char_of (48 + d)"

text \<open>The value of a digit string read as an integer, and read as the digits after a
  decimal point.\<close>

definition digits_val :: "string \<Rightarrow> nat" where
  "digits_val ds = foldl (\<lambda>a c. 10 * a + digit_val c) 0 ds"

primrec fraction_val :: "string \<Rightarrow> rat" where
  "fraction_val [] = 0"
| "fraction_val (c # cs) = (of_nat (digit_val c) + fraction_val cs) / 10"

fun nat_digits :: "nat \<Rightarrow> string" where
  "nat_digits n = (if n < 10 then [digit_char n] else nat_digits (n div 10) @ [digit_char (n mod 10)])"

declare nat_digits.simps [simp del]

text \<open>The digits after the decimal point of \<open>r\<close> (with \<open>0 \<le> r < 1\<close>), produced until the
  remainder is zero or the bound is reached.\<close>

primrec fraction_digits :: "nat \<Rightarrow> rat \<Rightarrow> string" where
  "fraction_digits 0 r = []"
| "fraction_digits (Suc k) r =
     (if r = 0 then []
      else digit_char (nat \<lfloor>r * 10\<rfloor>) # fraction_digits k (r * 10 - of_nat (nat \<lfloor>r * 10\<rfloor>)))"

primrec fraction_exact :: "nat \<Rightarrow> rat \<Rightarrow> bool" where
  "fraction_exact 0 r = (r = 0)"
| "fraction_exact (Suc k) r =
     (if r = 0 then True else fraction_exact k (r * 10 - of_nat (nat \<lfloor>r * 10\<rfloor>)))"

definition denominator :: "rat \<Rightarrow> nat" where
  "denominator x = nat (snd (quotient_of x))"

text \<open>A decimal number: its expansion ends. Every JSON number literal and every value
  \<open>parseFloat\<close> returns is one; the denominator bounds the number of digits.\<close>

definition decimal_number :: "rat \<Rightarrow> bool" where
  "decimal_number x = fraction_exact (denominator x) (\<bar>x\<bar> - of_nat (nat \<lfloor>\<bar>x\<bar>\<rfloor>))"

text \<open>
  \<open>String(x)\<close> for a finite Number, in fixed notation with all the digits of \<open>x\<close>.
  JavaScript prints the shortest digits that read back as the same double, and switches
  to exponent notation from \<open>10^21\<close> on and below \<open>10^-6\<close>; in both notations
  \<open>parseFloat\<close> reads the printed Number back, which is what the model keeps.
\<close>

definition Number_toString :: "rat \<Rightarrow> string" where
  "Number_toString x =
     (let n = nat \<lfloor>\<bar>x\<bar>\<rfloor>; f = \<bar>x\<bar> - of_nat n
      in (if x < 0 then ''-'' else []) @ nat_digits n @
         (if f = 0 then [] else ''.'' @ fraction_digits (denominator x) f))"

text \<open>
  \<open>x.toFixed(2)\<close>: the integer \<open>n\<close> nearest to \<open>\<bar>x\<bar> * 100\<close> (the larger one at a tie),
  printed with two digits after the point and the sign of \<open>x\<close>. The switch to
  \<open>String(x)\<close> from \<open>10^21\<close> on is not modelled.
\<close>

definition toFixed2 :: "jsnum \<Rightarrow> string" where
  "toFixed2 v =
     (case v of
        NaN \<Rightarrow> ''NaN''
      | PosInfinity \<Rightarrow> ''Infinity''
      | NegInfinity \<Rightarrow> ''-Infinity''
      | Finite x \<Rightarrow>
          (let n = nat \<lfloor>\<bar>x\<bar> * 100 + 1 / 2\<rfloor>
           in (if x < 0 then ''-'' else []) @ nat_digits (n div 100) @ ''.'' @
              [digit_char (n mod 100 div 10), digit_char (n mod 10)]))"

subsection \<open>parseFloat and parseInt\<close>

definition strip_sign :: "string \<Rightarrow> bool \<times> string" where
  "strip_sign s =
     (case s of
        [] \<Rightarrow> (False, [])
      | c # r \<Rightarrow> if c = CHR ''-'' then (True, r) else if c = CHR ''+'' then (False, r) else (False, s))"

text \<open>The exponent of a decimal literal: \<open>e\<close> or \<open>E\<close>, an optional sign and at least one
  digit; anything else is not part of the literal and counts as exponent 0.\<close>

definition exponent_part :: "string \<Rightarrow> int" where
  "exponent_part r =
     (case r of
        [] \<Rightarrow> 0
      | c # r' \<Rightarrow>
          if c = CHR ''e'' \<or> c = CHR ''E''
          then (let ds = takeWhile is_digit (snd (strip_sign r'))
                in if ds = [] then 0
                   else if fst (strip_sign r') then - int (digits_val ds) else int (digits_val ds))
          else 0)"

definition scale10 :: "rat \<Rightarrow> int \<Rightarrow> rat" where
  "scale10 m e = (if 0 \<le> e then m * 10 ^ nat e else m / 10 ^ nat (- e))"

text \<open>
  \<open>parseFloat(s)\<close>: leading white space is skipped, then the longest prefix that is a
  decimal literal (sign, \<open>Infinity\<close>, or digits with an optional fraction and exponent)
  is read; \<open>NaN\<close> when there is no such prefix.
\<close>

definition parseFloat :: "string \<Rightarrow> jsnum" where
  "parseFloat s =
     (let neg = fst (strip_sign (dropWhile is_space s));
          u = snd (strip_sign (dropWhile is_space s))
      in if take 8 u = ''Infinity'' then (if neg then NegInfinity else PosInfinity)
         else
           (let ip = takeWhile is_digit u;
                r1 = dropWhile is_digit u;
                dot = (case r1 of [] \<Rightarrow> False | c # r \<Rightarrow> c = CHR ''.'');
                fp = (if dot then takeWhile is_digit (tl r1) else []);
                r2 = (if dot then dropWhile is_digit (tl r1) else r1)
            in if ip = [] \<and> fp = [] then NaN
               else (let v = scale10 (of_nat (digits_val ip) + fraction_val fp) (exponent_part r2)
                     in Finite (if neg then - v else v))))"

definition is_hex_digit :: "char \<Rightarrow> bool" where
  "is_hex_digit c =
     (is_digit c \<or> (97 \<le> (of_char c :: nat) \<and> (of_char c :: nat) \<le> 102)
                 \<or> (65 \<le> (of_char c :: nat) \<and> (of_char c :: nat) \<le> 70))"

definition hex_digit_val :: "char \<Rightarrow> nat" where
  "hex_digit_val c =
     (if is_digit c then digit_val c
      else if 97 \<le> (of_char c :: nat) then of_char c - 87 else of_char c - 55)"

text \<open>
  \<open>parseInt(s)\<close> without a radix: white space and a sign are skipped, a \<open>0x\<close> prefix
  selects base 16, and the digits that follow are read; \<open>NaN\<close> when there is none.
\<close>

definition parseInt :: "string \<Rightarrow> jsnum" where
  "parseInt s =
     (let neg = fst (strip_sign (dropWhile is_space s));
          u = snd (strip_sign (dropWhile is_space s));
          hex = (take 2 u = ''0x'' \<or> take 2 u = ''0X'');
          ds = (if hex then takeWhile is_hex_digit (drop 2 u) else takeWhile is_digit u);
          n = (if hex then foldl (\<lambda>a c. 16 * a + hex_digit_val c) 0 ds else digits_val ds)
      in if ds = [] then NaN
         else Finite (if neg then - of_nat n else of_nat n))"

subsection \<open>Form controls\<close>

text \<open>
  HTML's \<open>valid floating-point number\<close>: an optional minus sign; digits, or a point followed by
  digits, or both; an optional exponent.
\<close>

definition valid_exponent :: "string \<Rightarrow> bool" where
  "valid_exponent r =
     (case r of
        [] \<Rightarrow> True
      | c # r' \<Rightarrow>
          (c = CHR ''e'' \<or> c = CHR ''E'') \<and>
          (let ds = (case r' of
                       [] \<Rightarrow> []
                     | d # r'' \<Rightarrow> if d = CHR ''-'' \<or> d = CHR ''+'' then r'' else r')
           in ds \<noteq> [] \<and> list_all is_digit ds))"

definition valid_floating_point_number :: "string \<Rightarrow> bool" where
  "valid_floating_point_number s =
     (let u = (case s of [] \<Rightarrow> [] | c # r \<Rightarrow> if c = CHR ''-'' then r else s);
          ip = takeWhile is_digit u;
          r1 = dropWhile is_digit u;
          dot = (case r1 of [] \<Rightarrow> False | c # r \<Rightarrow> c = CHR ''.'');
          fp = (if dot then takeWhile is_digit (tl r1) else []);
          r2 = (if dot then dropWhile is_digit (tl r1) else r1)
      in (if dot then fp \<noteq> [] else ip \<noteq> []) \<and> valid_exponent r2)"

text \<open>
  The \<open>value\<close> of an \<open>input type="number"\<close> whose content is \<open>raw\<close>: the value
  sanitization of HTML leaves the empty string unless the content is a valid
  floating-point number.
\<close>

definition number_input_value :: "string \<Rightarrow> string" where
  "number_input_value raw = (if valid_floating_point_number raw then raw else [])"

text \<open>The \<open>value\<close> of an \<open>input type="text"\<close>: line breaks are stripped.\<close>

definition text_input_value :: "string \<Rightarrow> string" where
  "text_input_value raw = filter (\<lambda>c. c \<noteq> CHR 0x0A \<and> c \<noteq> CHR 0x0D) raw"

subsection \<open>Reading a parsed JSON value\<close>

text \<open>\<open>data?.k\<close>: the property \<open>k\<close> of \<open>data\<close>; \<open>None\<close> stands for \<open>undefined\<close>, which
  is what the access gives when \<open>data\<close> is \<open>null\<close>, absent or not an object with that
  property.\<close>

definition get :: "json option \<Rightarrow> string \<Rightarrow> json option" where
  "get data k = (case data of Some (JObj kvs) \<Rightarrow> map_of kvs k | _ \<Rightarrow> None)"

fun js_truthy :: "json \<Rightarrow> bool" where
  "js_truthy JNull = False"
| "js_truthy (JBool b) = b"
| "js_truthy (JNum x) = (x \<noteq> 0)"
| "js_truthy (JStr s) = (s \<noteq> [])"
| "js_truthy (JArr xs) = True"
| "js_truthy (JObj kvs) = True"

definition truthy :: "json option \<Rightarrow> bool" where
  "truthy v = (case v of None \<Rightarrow> False | Some x \<Rightarrow> js_truthy x)"

text \<open>\<open>String(v)\<close>; an array joins its elements with commas, \<open>null\<close> elements as empty
  strings.\<close>

fun js_String :: "json \<Rightarrow> string" and js_join :: "json list \<Rightarrow> string" where
  "js_String JNull = ''null''"
| "js_String (JBool b) = (if b then ''true'' else ''false'')"
| "js_String (JNum x) = Number_toString x"
| "js_String (JStr s) = s"
| "js_String (JArr xs) = js_join xs"
| "js_String (JObj kvs) = ''[object Object]''"
| "js_join [] = []"
| "js_join [v] = (if v = JNull then [] else js_String v)"
| "js_join (v # w # vs) = (if v = JNull then [] else js_String v) @ '','' @ js_join (w # vs)"

text \<open>
  The text a template slot puts into a control. \<open>escapeHtml(v || d)\<close> inside a quoted
  attribute is read back by the HTML parser as the text itself, so the content of the
  control is \<open>String(v || d)\<close>. The slots \<open>${v ?? d}\<close> are not escaped; the model takes
  their text as the content too (the text of a Number has no character that ends the
  attribute; for other texts the break-out from the attribute is not modelled).
\<close>

definition or_text :: "json option \<Rightarrow> string \<Rightarrow> string" where
  "or_text v d = (case v of None \<Rightarrow> d | Some x \<Rightarrow> if js_truthy x then js_String x else d)"

definition nullish_text :: "json option \<Rightarrow> string \<Rightarrow> string" where
  "nullish_text v d = (case v of None \<Rightarrow> d | Some JNull \<Rightarrow> d | Some x \<Rightarrow> js_String x)"

text \<open>The \<open>value\<close> of a \<open>select\<close> built from options with their \<open>selected\<close> attributes:
  the last option that carries the attribute, the first option when none does.\<close>

definition selected_option :: "(string \<times> bool) list \<Rightarrow> string" where
  "selected_option opts =
     (case filter snd opts of [] \<Rightarrow> fst (hd opts) | o1 # os \<Rightarrow> fst (last (o1 # os)))"

text \<open>\<open>components[key] = v\<close>: an existing property keeps its place and takes the new
  value, a new one is added last. (JavaScript enumerates keys that are array indices
  first; the canonical names of components are not such keys, and the model keeps
  insertion order for all.)\<close>

fun obj_set :: "string \<Rightarrow> json \<Rightarrow> (string \<times> json) list \<Rightarrow> (string \<times> json) list" where
  "obj_set k v [] = [(k, v)]"
| "obj_set k v ((k', v') # kvs) = (if k' = k then (k, v) # kvs else (k', v') # obj_set k v kvs)"

section \<open>The records of the seven sections\<close>

text \<open>
  One record per \<open>.component-item\<close> element: the content of each of its controls, as the
  user typed it or as the template wrote it. Checkboxes are booleans, a \<open>select\<close> holds
  the value of its selected option.
\<close>

record basic_item =
  comp_name :: string
  comp_code :: string
  comp_percentage :: string
  comp_amount :: jsnum

record allowance_item =
  allow_name :: string
  allow_calc_type :: string
  allow_active :: bool
  allow_annual :: bool
  percentage_fields_display :: string
  allow_percentage :: string
  allow_based_on :: string
  fixed_fields_display :: string
  allow_fixed_amount :: string

record relief_item =
  relief_name :: string
  relief_formula_type :: string
  relief_active :: bool
  relief_percentage_fields_display :: string
  relief_percentage :: string
  relief_based_on :: string
  relief_fixed_fields_display :: string
  relief_fixed_amount :: string

record bracket_item =
  bracket_limit :: string
  bracket_rate :: string

record statutory_item =
  stat_name :: string
  stat_percentage :: string
  stat_based_on :: string
  stat_active :: bool

record other_item =
  other_name :: string
  other_display_rule :: string
  other_linked_to :: string
  other_order :: string

record income_item =
  income_name :: string
  income_display_rule :: string
  income_order :: string

subsection \<open>The templates of the add functions\<close>

text \<open>\<open>comp_amount\<close> is the Number shown as the example amount (the template shows 0.00).\<close>

definition basic_template :: "json option \<Rightarrow> basic_item" where
  "basic_template data =
     \<lparr> comp_name = or_text (get data ''name'') [],
       comp_code = or_text (get data ''code'') [],
       comp_percentage = nullish_text (get data ''percentage'') [],
       comp_amount = Finite 0 \<rparr>"

definition allowance_template :: "json option \<Rightarrow> allowance_item" where
  "allowance_template data =
     \<lparr> allow_name = or_text (get data ''name'') [],
       allow_calc_type = selected_option
         [(''percentage'', get data ''calculation_type'' = Some (JStr ''percentage'')),
          (''fixed'', get data ''calculation_type'' = Some (JStr ''fixed''))],
       allow_active = (get data ''is_active'' \<noteq> Some (JBool False)),
       allow_annual = truthy (get data ''annual_only''),
       percentage_fields_display =
         (if get data ''calculation_type'' = Some (JStr ''fixed'') then ''none'' else ''block''),
       allow_percentage = nullish_text (get data ''percentage'') [],
       allow_based_on = or_text (get data ''based_on'') ''TOTAL'',
       fixed_fields_display =
         (if get data ''calculation_type'' = Some (JStr ''fixed'') then ''block'' else ''none''),
       allow_fixed_amount = nullish_text (get data ''fixed_amount'') [] \<rparr>"

definition relief_template :: "json option \<Rightarrow> relief_item" where
  "relief_template data =
     \<lparr> relief_name = or_text (get data ''name'') [],
       relief_formula_type = selected_option
         [(''percentage_plus_fixed'', get data ''formula_type'' = Some (JStr ''percentage_plus_fixed'')),
          (''percentage'', get data ''formula_type'' = Some (JStr ''percentage'')),
          (''fixed'', get data ''formula_type'' = Some (JStr ''fixed''))],
       relief_active = (get data ''is_active'' \<noteq> Some (JBool False)),
       relief_percentage_fields_display =
         (if get data ''formula_type'' = Some (JStr ''fixed'') then ''none'' else ''block''),
       relief_percentage = nullish_text (get data ''percentage'') [],
       relief_based_on = or_text (get data ''based_on'') ''gross_income'',
       relief_fixed_fields_display =
         (if get data ''formula_type'' = Some (JStr ''percentage'') then ''none'' else ''block''),
       relief_fixed_amount = nullish_text (get data ''fixed_amount'') [] \<rparr>"

definition bracket_template :: "json option \<Rightarrow> bracket_item" where
  "bracket_template data =
     \<lparr> bracket_limit = nullish_text (get data ''limit'') [],
       bracket_rate = nullish_text (get data ''rate'') [] \<rparr>"

definition statutory_template :: "json option \<Rightarrow> statutory_item" where
  "statutory_template data =
     \<lparr> stat_name = or_text (get data ''name'') [],
       stat_percentage = nullish_text (get data ''percentage'') [],
       stat_based_on = or_text (get data ''based_on'') ''B'',
       stat_active = (get data ''is_active'' \<noteq> Some (JBool False)) \<rparr>"

definition other_template :: "json option \<Rightarrow> other_item" where
  "other_template data =
     \<lparr> other_name = or_text (get data ''name'') [],
       other_display_rule = selected_option
         [(''show_if_filled'', get data ''display_rule'' = Some (JStr ''show_if_filled'')),
          (''always_show'', get data ''display_rule'' = Some (JStr ''always_show''))],
       other_linked_to = selected_option
         [([], \<not> truthy (get data ''linked_to'')),
          (''staff_loan'', get data ''linked_to'' = Some (JStr ''staff_loan'')),
          (''salary_advance'', get data ''linked_to'' = Some (JStr ''salary_advance''))],
       other_order = nullish_text (get data ''order'') ''1'' \<rparr>"

definition income_template :: "json option \<Rightarrow> income_item" where
  "income_template data =
     \<lparr> income_name = or_text (get data ''name'') [],
       income_display_rule = selected_option
         [(''show_if_filled'', get data ''display_rule'' = Some (JStr ''show_if_filled'')),
          (''always_show'', get data ''display_rule'' = Some (JStr ''always_show''))],
       income_order = nullish_text (get data ''order'') ''1'' \<rparr>"

section \<open>The serializers\<close>

text \<open>
  Each \<open>update...JSON\<close> function walks the records of its container and builds the
  canonical form. The functions below are the bodies of those walks: what one record
  contributes (\<open>None\<close> when the record is skipped), read from the record's controls.
\<close>

subsection \<open>Basic components\<close>

definition basic_name :: "basic_item \<Rightarrow> string" where
  "basic_name item = js_trim (text_input_value (comp_name item))"

definition basic_code :: "basic_item \<Rightarrow> string" where
  "basic_code item = js_trim (text_input_value (comp_code item))"

text \<open>\<open>parseFloat(value) || 0\<close>\<close>

definition basic_percentage :: "basic_item \<Rightarrow> jsnum" where
  "basic_percentage item =
     (let p = parseFloat (number_input_value (comp_percentage item))
      in if num_truthy p then p else Finite 0)"

text \<open>\<open>name.toLowerCase().replace(/\s+/g, '_')\<close>\<close>

definition component_key :: "string \<Rightarrow> string" where
  "component_key name = replace_spaces False (toLowerCase name)"

definition basic_record :: "basic_item \<Rightarrow> json" where
  "basic_record item =
     JObj [(''code'', JStr (basic_code item)),
           (''percentage'', json_of_num (basic_percentage item)),
           (''name'', JStr (basic_name item))]"

text \<open>
  The \<open>forEach\<close> of \<open>updateBasicComponentsJSON\<close>, with its two accumulators
  \<open>components\<close> and \<open>totalPercentage\<close>. It returns the records with their example
  amounts rewritten, the object and the total.
\<close>

fun basic_forEach ::
  "(nat \<times> basic_item) list \<Rightarrow> (string \<times> json) list \<Rightarrow> jsnum \<Rightarrow>
   (nat \<times> basic_item) list \<times> (string \<times> json) list \<times> jsnum" where
  "basic_forEach [] components totalPercentage = ([], components, totalPercentage)"
| "basic_forEach ((i, item) # rest) components totalPercentage =
     (if basic_name item \<noteq> [] \<and> basic_code item \<noteq> []
      then
        (case basic_forEach rest
                (obj_set (component_key (basic_name item)) (basic_record item) components)
                (js_add totalPercentage (basic_percentage item)) of
           (rest', components', total') \<Rightarrow>
             ((i, item\<lparr>comp_amount := example_amount (basic_percentage item)\<rparr>) # rest',
              components', total'))
      else
        (case basic_forEach rest components totalPercentage of
           (rest', components', total') \<Rightarrow>
             ((i, item\<lparr>comp_amount := Finite 0\<rparr>) # rest', components', total')))"

subsection \<open>Allowances and reliefs\<close>

definition allowance_entry :: "allowance_item \<Rightarrow> json option" where
  "allowance_entry item =
     (let name = js_trim (text_input_value (allow_name item));
          calculation_type = (if allow_calc_type item = [] then ''percentage'' else allow_calc_type item);
          percentage = parseFloat (number_input_value (allow_percentage item));
          basedOn = js_trim (text_input_value (allow_based_on item));
          fixedAmount = parseFloat (number_input_value (allow_fixed_amount item))
      in if name = [] then None
         else Some (JObj
           ([(''name'', JStr name),
             (''is_active'', JBool (allow_active item)),
             (''calculation_type'', JStr calculation_type),
             (''annual_only'', JBool (allow_annual item))] @
            (if calculation_type = ''percentage''
             then (if isNaN percentage then [] else [(''percentage'', json_of_num percentage)]) @
                  (if basedOn = [] then [] else [(''based_on'', JStr basedOn)])
             else (if isNaN fixedAmount then [] else [(''fixed_amount'', json_of_num fixedAmount)])))))"

definition relief_entry :: "relief_item \<Rightarrow> json option" where
  "relief_entry item =
     (let name = js_trim (text_input_value (relief_name item));
          formula_type = (if relief_formula_type item = [] then ''percentage_plus_fixed''
                          else relief_formula_type item);
          percentage = parseFloat (number_input_value (relief_percentage item));
          basedOn = js_trim (text_input_value (relief_based_on item));
          fixedAmount = parseFloat (number_input_value (relief_fixed_amount item))
      in if name = [] then None
         else Some (JObj
           ([(''name'', JStr name),
             (''is_active'', JBool (relief_active item)),
             (''formula_type'', JStr formula_type)] @
            (if formula_type \<noteq> ''fixed''
             then (if isNaN percentage then [] else [(''percentage'', json_of_num percentage)]) @
                  (if basedOn = [] then [] else [(''based_on'', JStr basedOn)])
             else []) @
            (if formula_type \<noteq> ''percentage''
             then (if isNaN fixedAmount then [] else [(''fixed_amount'', json_of_num fixedAmount)])
             else []))))"

subsection \<open>Tax brackets and statutory deductions\<close>

definition bracket_entry :: "bracket_item \<Rightarrow> json option" where
  "bracket_entry item =
     (let limitInput = js_trim (number_input_value (bracket_limit item));
          rate = parseFloat (number_input_value (bracket_rate item))
      in if isNaN rate then None
         else Some (JObj
           [(''limit'', if limitInput = [] then JNull else json_of_num (parseFloat limitInput)),
            (''rate'', json_of_num rate)]))"

definition statutory_entry :: "statutory_item \<Rightarrow> json option" where
  "statutory_entry item =
     (let name = js_trim (text_input_value (stat_name item));
          percentage = parseFloat (number_input_value (stat_percentage item));
          basedOn = js_trim (text_input_value (stat_based_on item))
      in if name \<noteq> [] \<and> \<not> isNaN percentage
         then Some (JObj
           [(''name'', JStr name),
            (''is_active'', JBool (stat_active item)),
            (''percentage'', json_of_num percentage),
            (''based_on'', JStr (if basedOn = [] then ''B'' else basedOn))])
         else None)"

subsection \<open>Other deductions and income items\<close>

text \<open>\<open>parseInt(value) || 1\<close>\<close>

definition order_of :: "string \<Rightarrow> jsnum" where
  "order_of raw =
     (let n = parseInt (number_input_value raw) in if num_truthy n then n else Finite 1)"

definition other_entry :: "other_item \<Rightarrow> json option" where
  "other_entry item =
     (let name = js_trim (text_input_value (other_name item));
          linkedTo = js_trim (other_linked_to item)
      in if name = [] then None
         else Some (JObj
           ([(''name'', JStr name),
             (''display_rule'', JStr (if other_display_rule item = [] then ''show_if_filled''
                                      else other_display_rule item)),
             (''order'', json_of_num (order_of (other_order item)))] @
            (if linkedTo = [] then [] else [(''linked_to'', JStr linkedTo)]))))"

definition income_entry :: "income_item \<Rightarrow> json option" where
  "income_entry item =
     (let name = js_trim (text_input_value (income_name item))
      in if name = [] then None
         else Some (JObj
           [(''name'', JStr name),
            (''display_rule'', JStr (if income_display_rule item = [] then ''show_if_filled''
                                     else income_display_rule item)),
            (''order'', json_of_num (order_of (income_order item)))]))"

text \<open>The array a serializer builds: one element per record that is not skipped, in
  the order of the container.\<close>

primrec collect :: "('a \<Rightarrow> json option) \<Rightarrow> (nat \<times> 'a) list \<Rightarrow> json list" where
  "collect entry [] = []"
| "collect entry (p # ps) =
     (case entry (snd p) of None \<Rightarrow> collect entry ps | Some r \<Rightarrow> r # collect entry ps)"

definition entries :: "('a \<Rightarrow> json option) \<Rightarrow> (nat \<times> 'a) list \<Rightarrow> json" where
  "entries entry items = JArr (collect entry items)"

section \<open>The page state\<close>

text \<open>
  A container element: its \<open>.component-item\<close> children, each with the \<open>data-id\<close> it
  got from \<open>componentCounter\<close>, and whether it carries the class \<open>has-items\<close>.
\<close>

record 'a container =
  children :: "(nat \<times> 'a) list"
  has_items :: bool

text \<open>
  The text of a hidden input. It is either text as the server rendered it, or the text
  \<open>JSON.stringify(v, null, 2)\<close> that a serializer wrote for a value \<open>v\<close>; for the latter
  the model keeps \<open>v\<close>.
\<close>

datatype hidden = Rendered string | Stringified json

record form_state =
  componentCounter :: nat
  basicComponentsContainer :: "basic_item container"
  allowancesContainer :: "allowance_item container"
  reliefsContainer :: "relief_item container"
  taxBracketsContainer :: "bracket_item container"
  statutoryDeductionsContainer :: "statutory_item container"
  otherDeductionsContainer :: "other_item container"
  incomeItemsContainer :: "income_item container"
  hiddenBasicComponents :: hidden
  hiddenAllowances :: hidden
  hiddenReliefs :: hidden
  hiddenTaxBrackets :: hidden
  hiddenIncomeItems :: hidden
  hiddenStatutoryDeductions :: hidden
  hiddenOtherDeductions :: hidden
  totalPercentage_textContent :: string
  totalPercentage_className :: string

definition updateContainerState :: "'a container \<Rightarrow> 'a container" where
  "updateContainerState c = c\<lparr>has_items := (children c \<noteq> [])\<rparr>"

definition appendChild :: "nat \<times> 'a \<Rightarrow> 'a container \<Rightarrow> 'a container" where
  "appendChild item c = c\<lparr>children := children c @ [item]\<rparr>"

subsection \<open>The update functions\<close>

definition updateBasicComponentsJSON :: "form_state \<Rightarrow> form_state" where
  "updateBasicComponentsJSON st =
     (case basic_forEach (children (basicComponentsContainer st)) [] (Finite 0) of
        (items, components, totalPercentage) \<Rightarrow>
          st\<lparr> totalPercentage_textContent := toFixed2 totalPercentage,
              totalPercentage_className :=
                (if js_less (Math_abs (js_sub totalPercentage (Finite 100))) (Finite (1 / 100))
                 then ''percentage-valid'' else ''percentage-invalid''),
              hiddenBasicComponents := Stringified (JObj components),
              basicComponentsContainer :=
                updateContainerState ((basicComponentsContainer st)\<lparr>children := items\<rparr>) \<rparr>)"

definition updateAllowancesJSON :: "form_state \<Rightarrow> form_state" where
  "updateAllowancesJSON st =
     st\<lparr> hiddenAllowances :=
           Stringified (entries allowance_entry (children (allowancesContainer st))),
         allowancesContainer := updateContainerState (allowancesContainer st) \<rparr>"

definition updateReliefsJSON :: "form_state \<Rightarrow> form_state" where
  "updateReliefsJSON st =
     st\<lparr> hiddenReliefs := Stringified (entries relief_entry (children (reliefsContainer st))),
         reliefsContainer := updateContainerState (reliefsContainer st) \<rparr>"

definition updateTaxBracketsJSON :: "form_state \<Rightarrow> form_state" where
  "updateTaxBracketsJSON st =
     st\<lparr> hiddenTaxBrackets :=
           Stringified (entries bracket_entry (children (taxBracketsContainer st))),
         taxBracketsContainer := updateContainerState (taxBracketsContainer st) \<rparr>"

definition updateStatutoryDeductionsJSON :: "form_state \<Rightarrow> form_state" where
  "updateStatutoryDeductionsJSON st =
     st\<lparr> hiddenStatutoryDeductions :=
           Stringified (entries statutory_entry (children (statutoryDeductionsContainer st))),
         statutoryDeductionsContainer := updateContainerState (statutoryDeductionsContainer st) \<rparr>"

definition updateOtherDeductionsJSON :: "form_state \<Rightarrow> form_state" where
  "updateOtherDeductionsJSON st =
     st\<lparr> hiddenOtherDeductions :=
           Stringified (entries other_entry (children (otherDeductionsContainer st))),
         otherDeductionsContainer := updateContainerState (otherDeductionsContainer st) \<rparr>"

definition updateIncomeItemsJSON :: "form_state \<Rightarrow> form_state" where
  "updateIncomeItemsJSON st =
     st\<lparr> hiddenIncomeItems :=
           Stringified (entries income_entry (children (incomeItemsContainer st))),
         incomeItemsContainer := updateContainerState (incomeItemsContainer st) \<rparr>"

subsection \<open>The add functions\<close>

text \<open>Each add function increments the counter, builds the record from its template,
  appends it to the container and runs the section's update function.\<close>

definition addBasicComponent :: "json option \<Rightarrow> form_state \<Rightarrow> form_state" where
  "addBasicComponent data st =
     updateBasicComponentsJSON
       (st\<lparr> componentCounter := componentCounter st + 1,
            basicComponentsContainer :=
              appendChild (componentCounter st + 1, basic_template data)
                (basicComponentsContainer st) \<rparr>)"

definition addAllowance :: "json option \<Rightarrow> form_state \<Rightarrow> form_state" where
  "addAllowance data st =
     updateAllowancesJSON
       (st\<lparr> componentCounter := componentCounter st + 1,
            allowancesContainer :=
              appendChild (componentCounter st + 1, allowance_template data)
                (allowancesContainer st) \<rparr>)"

definition addRelief :: "json option \<Rightarrow> form_state \<Rightarrow> form_state" where
  "addRelief data st =
     updateReliefsJSON
       (st\<lparr> componentCounter := componentCounter st + 1,
            reliefsContainer :=
              appendChild (componentCounter st + 1, relief_template data) (reliefsContainer st) \<rparr>)"

definition addTaxBracket :: "json option \<Rightarrow> form_state \<Rightarrow> form_state" where
  "addTaxBracket data st =
     updateTaxBracketsJSON
       (st\<lparr> componentCounter := componentCounter st + 1,
            taxBracketsContainer :=
              appendChild (componentCounter st + 1, bracket_template data)
                (taxBracketsContainer st) \<rparr>)"

definition addStatutoryDeduction :: "json option \<Rightarrow> form_state \<Rightarrow> form_state" where
  "addStatutoryDeduction data st =
     updateStatutoryDeductionsJSON
       (st\<lparr> componentCounter := componentCounter st + 1,
            statutoryDeductionsContainer :=
              appendChild (componentCounter st + 1, statutory_template data)
                (statutoryDeductionsContainer st) \<rparr>)"

definition addOtherDeduction :: "json option \<Rightarrow> form_state \<Rightarrow> form_state" where
  "addOtherDeduction data st =
     updateOtherDeductionsJSON
       (st\<lparr> componentCounter := componentCounter st + 1,
            otherDeductionsContainer :=
              appendChild (componentCounter st + 1, other_template data)
                (otherDeductionsContainer st) \<rparr>)"

definition addIncomeItem :: "json option \<Rightarrow> form_state \<Rightarrow> form_state" where
  "addIncomeItem data st =
     updateIncomeItemsJSON
       (st\<lparr> componentCounter := componentCounter st + 1,
            incomeItemsContainer :=
              appendChild (componentCounter st + 1, income_template data)
                (incomeItemsContainer st) \<rparr>)"

section \<open>Loading the existing data\<close>

text \<open>
  \<open>JSON.parse\<close> belongs to the host. The model fixes it on the two texts the script
  itself passes to it, \<open>'{}'\<close> and \<open>'[]'\<close>, and takes its result on every other text from
  the parameter \<open>host_parse\<close> (\<open>None\<close> when it throws).
\<close>

definition JSON_parse :: "(string \<Rightarrow> json option) \<Rightarrow> string \<Rightarrow> json option" where
  "JSON_parse host_parse t =
     (if t = ''{}'' then Some (JObj []) else if t = ''[]'' then Some (JArr []) else host_parse t)"

text \<open>\<open>JSON.parse(hidden.value || dflt)\<close>\<close>

definition parse_hidden :: "(string \<Rightarrow> json option) \<Rightarrow> string \<Rightarrow> hidden \<Rightarrow> json option" where
  "parse_hidden host_parse dflt h =
     (case h of
        Rendered t \<Rightarrow> JSON_parse host_parse (if t = [] then dflt else t)
      | Stringified v \<Rightarrow> Some v)"

text \<open>\<open>hiddenBasicComponents.value && hiddenBasicComponents.value !== '{}'\<close>. The text
  \<open>JSON.stringify(v, null, 2)\<close> is never empty, and is \<open>'{}'\<close> for the empty object only.\<close>

definition isEditMode :: "form_state \<Rightarrow> bool" where
  "isEditMode st =
     (case hiddenBasicComponents st of
        Rendered t \<Rightarrow> t \<noteq> [] \<and> t \<noteq> ''{}''
      | Stringified v \<Rightarrow> v \<noteq> JObj [])"

text \<open>\<open>Object.values(v)\<close>, \<open>None\<close> for the TypeError on \<open>null\<close>; \<open>Object.keys(v)\<close> has the
  same length.\<close>

fun Object_values :: "json \<Rightarrow> json list option" where
  "Object_values JNull = None"
| "Object_values (JObj kvs) = Some (map snd kvs)"
| "Object_values (JArr xs) = Some xs"
| "Object_values (JStr s) = Some (map (\<lambda>c. JStr [c]) s)"
| "Object_values (JBool b) = Some []"
| "Object_values (JNum x) = Some []"

text \<open>\<open>{name: comp.name, code: comp.code, percentage: comp.percentage}\<close>; a property
  whose value is \<open>undefined\<close> is left out, which no reader of the object can tell apart.\<close>

definition component_data :: "json \<Rightarrow> json" where
  "component_data component =
     JObj (List.map_filter (\<lambda>k. map_option (Pair k) (get (Some component) k))
             [''name'', ''code'', ''percentage''])"

text \<open>The \<open>forEach\<close> over the components: reading the \<open>name\<close> of a \<open>null\<close> component
  throws, which ends the walk; the flag tells that it did.\<close>

fun load_components :: "json list \<Rightarrow> form_state \<Rightarrow> form_state \<times> bool" where
  "load_components [] st = (st, False)"
| "load_components (component # rest) st =
     (if component = JNull then (st, True)
      else load_components rest (addBasicComponent (Some (component_data component)) st))"

definition load_basic :: "(string \<Rightarrow> json option) \<Rightarrow> bool \<Rightarrow> form_state \<Rightarrow> form_state" where
  "load_basic host_parse edit st =
     (case parse_hidden host_parse ''{}'' (hiddenBasicComponents st) of
        None \<Rightarrow> if edit then st else addBasicComponent None st
      | Some basicComponents \<Rightarrow>
          (case Object_values basicComponents of
             None \<Rightarrow> if edit then st else addBasicComponent None st
           | Some comps \<Rightarrow>
               if comps \<noteq> []
               then (case load_components comps st of
                       (st', thrown) \<Rightarrow>
                         if thrown then (if edit then st' else addBasicComponent None st') else st')
               else if edit then st else addBasicComponent None st))"

text \<open>The six array sections share one shape: a non-empty array adds one record per
  element; anything else, a parse failure included, adds the default record unless in
  edit mode. \<open>array_items\<close> gives the elements when the parsed value is an array, so
  that \<open>Array.isArray(v) && v.length > 0\<close> is \<open>array_items parsed \<noteq> []\<close>.\<close>

definition array_items :: "json option \<Rightarrow> json list" where
  "array_items parsed = (case parsed of Some (JArr xs) \<Rightarrow> xs | _ \<Rightarrow> [])"

definition load_array ::
  "json option \<Rightarrow> bool \<Rightarrow> (json option \<Rightarrow> form_state \<Rightarrow> form_state) \<Rightarrow> form_state \<Rightarrow> form_state" where
  "load_array parsed edit add st =
     (if array_items parsed \<noteq> []
      then foldl (\<lambda>s d. add (Some d) s) st (array_items parsed)
      else if edit then st else add None st)"

definition clear_containers :: "form_state \<Rightarrow> form_state" where
  "clear_containers st =
     st\<lparr> basicComponentsContainer := (basicComponentsContainer st)\<lparr>children := []\<rparr>,
         allowancesContainer := (allowancesContainer st)\<lparr>children := []\<rparr>,
         reliefsContainer := (reliefsContainer st)\<lparr>children := []\<rparr>,
         taxBracketsContainer := (taxBracketsContainer st)\<lparr>children := []\<rparr>,
         statutoryDeductionsContainer := (statutoryDeductionsContainer st)\<lparr>children := []\<rparr>,
         otherDeductionsContainer := (otherDeductionsContainer st)\<lparr>children := []\<rparr>,
         incomeItemsContainer := (incomeItemsContainer st)\<lparr>children := []\<rparr> \<rparr>"

definition load_allowances :: "(string \<Rightarrow> json option) \<Rightarrow> bool \<Rightarrow> form_state \<Rightarrow> form_state" where
  "load_allowances host_parse edit st =
     load_array (parse_hidden host_parse ''[]'' (hiddenAllowances st)) edit addAllowance st"

definition load_reliefs :: "(string \<Rightarrow> json option) \<Rightarrow> bool \<Rightarrow> form_state \<Rightarrow> form_state" where
  "load_reliefs host_parse edit st =
     load_array (parse_hidden host_parse ''[]'' (hiddenReliefs st)) edit addRelief st"

definition load_brackets :: "(string \<Rightarrow> json option) \<Rightarrow> bool \<Rightarrow> form_state \<Rightarrow> form_state" where
  "load_brackets host_parse edit st =
     load_array (parse_hidden host_parse ''[]'' (hiddenTaxBrackets st)) edit addTaxBracket st"

definition load_statutory :: "(string \<Rightarrow> json option) \<Rightarrow> bool \<Rightarrow> form_state \<Rightarrow> form_state" where
  "load_statutory host_parse edit st =
     load_array (parse_hidden host_parse ''[]'' (hiddenStatutoryDeductions st)) edit
       addStatutoryDeduction st"

definition load_others :: "(string \<Rightarrow> json option) \<Rightarrow> bool \<Rightarrow> form_state \<Rightarrow> form_state" where
  "load_others host_parse edit st =
     load_array (parse_hidden host_parse ''[]'' (hiddenOtherDeductions st)) edit
       addOtherDeduction st"

definition load_income :: "(string \<Rightarrow> json option) \<Rightarrow> bool \<Rightarrow> form_state \<Rightarrow> form_state" where
  "load_income host_parse edit st =
     load_array (parse_hidden host_parse ''[]'' (hiddenIncomeItems st)) edit addIncomeItem st"

text \<open>\<open>loadExistingData\<close>: the containers are cleared, edit mode is read once from the
  Basic Components field, then the sections are loaded in the order of the source.\<close>

definition loadExistingData :: "(string \<Rightarrow> json option) \<Rightarrow> form_state \<Rightarrow> form_state" where
  "loadExistingData host_parse st =
     (let edit = isEditMode (clear_containers st)
      in load_income host_parse edit
          (load_others host_parse edit
            (load_statutory host_parse edit
              (load_brackets host_parse edit
                (load_reliefs host_parse edit
                  (load_allowances host_parse edit
                    (load_basic host_parse edit (clear_containers st))))))))"

section \<open>Lock state, the type selectors and the submit handler\<close>

text \<open>
  What \<open>isFormLocked\<close> reads: the \<open>data-locked\<close> attribute of the form (\<open>None\<close> when there
  is no form, \<open>Some None\<close> when the form has no such attribute), the value of the
  \<open>is_locked\<close> input when the page has one, and the global \<open>SALARY_SETTING_LOCKED\<close> when
  it is defined.
\<close>

record lock_signals =
  form_data_locked :: "string option option"
  is_locked_input :: "string option"
  SALARY_SETTING_LOCKED :: "json option"

definition isFormLocked :: "lock_signals \<Rightarrow> bool" where
  "isFormLocked env =
     (if form_data_locked env = Some (Some ''true'') then True
      else if (case is_locked_input env of
                 None \<Rightarrow> False
               | Some v \<Rightarrow> toLowerCase v = ''true'' \<or> toLowerCase v = ''1'' \<or> toLowerCase v = ''on'')
      then True
      else if SALARY_SETTING_LOCKED env = Some (JBool True) then True
      else False)"

text \<open>
  The user picks the option \<open>v\<close> in the calculation type selector of the record at
  position \<open>i\<close>. The selector takes the value, the \<open>input\<close> listener runs, then the
  \<open>change\<close> listeners in the order they were attached: the one that shows and hides the
  two field groups, and the one that serializes.
\<close>

definition select_calc_type :: "nat \<Rightarrow> string \<Rightarrow> form_state \<Rightarrow> form_state" where
  "select_calc_type i v st =
     (if i < length (children (allowancesContainer st))
      then
        (let c = allowancesContainer st;
             k = fst (children c ! i);
             item = snd (children c ! i);
             st1 = updateAllowancesJSON
               (st\<lparr>allowancesContainer := c\<lparr>children := (children c)[i := (k, item\<lparr>allow_calc_type := v\<rparr>)]\<rparr>\<rparr>);
             shown = item\<lparr> allow_calc_type := v,
                           percentage_fields_display := (if v = ''percentage'' then ''block'' else ''none''),
                           fixed_fields_display := (if v = ''fixed'' then ''block'' else ''none'') \<rparr>;
             c1 = allowancesContainer st1
         in updateAllowancesJSON
              (updateAllowancesJSON
                 (st1\<lparr>allowancesContainer := c1\<lparr>children := (children c1)[i := (k, shown)]\<rparr>\<rparr>)))
      else st)"

definition select_formula_type :: "nat \<Rightarrow> string \<Rightarrow> form_state \<Rightarrow> form_state" where
  "select_formula_type i v st =
     (if i < length (children (reliefsContainer st))
      then
        (let c = reliefsContainer st;
             k = fst (children c ! i);
             item = snd (children c ! i);
             st1 = updateReliefsJSON
               (st\<lparr>reliefsContainer := c\<lparr>children := (children c)[i := (k, item\<lparr>relief_formula_type := v\<rparr>)]\<rparr>\<rparr>);
             shown = item\<lparr> relief_formula_type := v,
                           relief_percentage_fields_display :=
                             (if v = ''percentage'' then ''block''
                              else if v = ''percentage_plus_fixed'' then ''block'' else ''none''),
                           relief_fixed_fields_display :=
                             (if v = ''fixed'' then ''block''
                              else if v = ''percentage_plus_fixed'' then ''block'' else ''none'') \<rparr>;
             c1 = reliefsContainer st1
         in updateReliefsJSON
              (updateReliefsJSON
                 (st1\<lparr>reliefsContainer := c1\<lparr>children := (children c1)[i := (k, shown)]\<rparr>\<rparr>)))
      else st)"





text \<open>The page as the server renders it for a new salary setting, before the script
  runs: no record, every hidden field empty, the counter at 0.\<close>

definition blank_page :: form_state where
  "blank_page =
     \<lparr> componentCounter = 0,
       basicComponentsContainer = \<lparr>children = [], has_items = False\<rparr>,
       allowancesContainer = \<lparr>children = [], has_items = False\<rparr>,
       reliefsContainer = \<lparr>children = [], has_items = False\<rparr>,
       taxBracketsContainer = \<lparr>children = [], has_items = False\<rparr>,
       statutoryDeductionsContainer = \<lparr>children = [], has_items = False\<rparr>,
       otherDeductionsContainer = \<lparr>children = [], has_items = False\<rparr>,
       incomeItemsContainer = \<lparr>children = [], has_items = False\<rparr>,
       hiddenBasicComponents = Rendered [],
       hiddenAllowances = Rendered [],
       hiddenReliefs = Rendered [],
       hiddenTaxBrackets = Rendered [],
       hiddenIncomeItems = Rendered [],
       hiddenStatutoryDeductions = Rendered [],
       hiddenOtherDeductions = Rendered [],
       totalPercentage_textContent = ''0.00'',
       totalPercentage_className = [] \<rparr>"


section \<open>Canonical forms\<close>





definition decimal_field :: "json option \<Rightarrow> bool" where
  "decimal_field v = (case v of Some (JNum x) \<Rightarrow> decimal_number x | _ \<Rightarrow> True)"











section \<open>Properties of the serializers\<close>

subsection \<open>Walks over the records\<close>

lemma collect_append: "collect entry (xs @ ys) = collect entry xs @ collect entry ys"
  by (induction xs) (auto split: option.splits)

lemma entries_skip:
  "entry item = None \<Longrightarrow> entries entry (xs @ (i, item) # ys) = entries entry (xs @ ys)"
  by (simp add: entries_def collect_append)

lemma basic_forEach_append:
  "basic_forEach (xs @ ys) c t =
     (case basic_forEach xs c t of
        (xs', c1, t1) \<Rightarrow>
          (case basic_forEach ys c1 t1 of (ys', c2, t2) \<Rightarrow> (xs' @ ys', c2, t2)))"
  by (induction xs c t rule: basic_forEach.induct) (auto split: prod.splits)

lemma basic_forEach_entered:
  "map (\<lambda>(k, item). (k, comp_name item, comp_code item, comp_percentage item))
       (fst (basic_forEach items c t)) =
   map (\<lambda>(k, item). (k, comp_name item, comp_code item, comp_percentage item)) items"
  by (induction items c t rule: basic_forEach.induct) (auto split: prod.splits)

lemma basic_forEach_skip:
  "basic_name item = [] \<or> basic_code item = [] \<Longrightarrow>
   snd (basic_forEach (xs @ (i, item) # ys) c t) = snd (basic_forEach (xs @ ys) c t)"
  by (auto simp: basic_forEach_append split: prod.splits)








subsection \<open>Number inputs\<close>

lemma digit_not_special:
  "is_digit c \<Longrightarrow> \<not> is_space c \<and> c \<noteq> CHR ''-'' \<and> c \<noteq> CHR ''+'' \<and> c \<noteq> CHR ''I'' \<and> c \<noteq> CHR ''.''"
  by (auto simp: is_digit_def is_space_def)

lemma dot_not_special:
  "\<not> is_space (CHR ''.'') \<and> \<not> is_space (CHR ''-'')"
  by (simp add: is_space_def)

lemma digits_last: "list_all is_digit ds \<Longrightarrow> ds \<noteq> [] \<Longrightarrow> is_digit (last ds)"
  by (induction ds) (auto split: if_splits)

lemma takeWhile_digits: "list_all is_digit (takeWhile is_digit t)"
  by (induction t) auto

lemma valid_exponent_last: "valid_exponent r \<Longrightarrow> r \<noteq> [] \<Longrightarrow> is_digit (last r)"
proof -
  assume v: "valid_exponent r" and ne: "r \<noteq> []"
  then obtain c r' where r: "r = c # r'" by (cases r) auto
  define ds where "ds = (case r' of [] \<Rightarrow> [] | d # r'' \<Rightarrow> if d = CHR ''-'' \<or> d = CHR ''+'' then r'' else r')"
  from v r have ds: "ds \<noteq> []" "list_all is_digit ds"
    by (auto simp: valid_exponent_def Let_def ds_def)
  then have "is_digit (last ds)" by (simp add: digits_last)
  moreover have "last r = last ds"
    using ds(1) r by (cases r') (auto simp: ds_def split: if_splits)
  ultimately show ?thesis by simp
qed

lemma valid_last:
  assumes "valid_floating_point_number s"
  shows "s \<noteq> [] \<and> is_digit (last s) \<and> \<not> is_space (hd s)"
proof -
  define u where "u = (case s of [] \<Rightarrow> [] | c # r \<Rightarrow> if c = CHR ''-'' then r else s)"
  define ip where "ip = takeWhile is_digit u"
  define r1 where "r1 = dropWhile is_digit u"
  define dot where "dot = (case r1 of [] \<Rightarrow> False | c # r \<Rightarrow> c = CHR ''.'')"
  define fp where "fp = (if dot then takeWhile is_digit (tl r1) else [])"
  define r2 where "r2 = (if dot then dropWhile is_digit (tl r1) else r1)"
  have "valid_floating_point_number s =
          ((if dot then fp \<noteq> [] else ip \<noteq> []) \<and> valid_exponent r2)"
    by (simp only: valid_floating_point_number_def Let_def u_def ip_def r1_def dot_def fp_def r2_def)
  with assms have ok: "if dot then fp \<noteq> [] else ip \<noteq> []" and ex: "valid_exponent r2" by simp_all
  have u: "u = ip @ r1" by (simp add: ip_def r1_def)
  have ipd: "list_all is_digit ip" by (simp add: ip_def takeWhile_digits)
  have last_u: "u \<noteq> [] \<and> is_digit (last u)"
  proof (cases dot)
    case True
    then obtain t where r1: "r1 = CHR ''.'' # t" by (cases r1) (auto simp: dot_def)
    have t: "t = fp @ r2" using True r1 by (simp add: fp_def r2_def)
    have fpd: "list_all is_digit fp" using True by (simp add: fp_def takeWhile_digits)
    from ok True have fpne: "fp \<noteq> []" by simp
    show ?thesis
    proof (cases "r2 = []")
      case True
      then show ?thesis using u r1 t fpne digits_last [OF fpd fpne] by simp
    next
      case False
      then show ?thesis using u r1 t valid_exponent_last [OF ex False] by simp
    qed
  next
    case False
    then have r2: "r2 = r1" by (simp add: r2_def)
    from ok False have ipne: "ip \<noteq> []" by simp
    show ?thesis
    proof (cases "r1 = []")
      case True
      then show ?thesis using u ipne digits_last [OF ipd ipne] by simp
    next
      case False
      then show ?thesis using u r2 valid_exponent_last [OF ex] by simp
    qed
  qed
  have hd_u: "is_digit (hd u) \<or> hd u = CHR ''.''"
  proof (cases ip)
    case Nil
    then have "u = r1" using u by simp
    moreover from Nil ok have dot by (simp split: if_splits)
    ultimately show ?thesis by (cases r1) (auto simp: dot_def)
  next
    case (Cons d ds)
    with ipd u show ?thesis by simp
  qed
  show ?thesis
  proof (cases s)
    case Nil
    with last_u show ?thesis by (simp add: u_def)
  next
    case (Cons a t)
    show ?thesis
    proof (cases "a = CHR ''-''")
      case True
      with Cons have "s = CHR ''-'' # u" by (simp add: u_def)
      with last_u dot_not_special show ?thesis by simp
    next
      case False
      with Cons have "s = u" by (simp add: u_def)
      with last_u hd_u digit_not_special [of "hd u"] dot_not_special show ?thesis by auto
    qed
  qed
qed

lemma js_trim_id: "s \<noteq> [] \<Longrightarrow> \<not> is_space (hd s) \<Longrightarrow> \<not> is_space (last s) \<Longrightarrow> js_trim s = s"
proof -
  assume s: "s \<noteq> []" and h: "\<not> is_space (hd s)" and l: "\<not> is_space (last s)"
  from s h have 1: "dropWhile is_space s = s" by (cases s) auto
  from s l have 2: "dropWhile is_space (rev s) = rev s" by (cases "rev s") (auto simp: hd_rev [symmetric] simp del: rev_is_Nil_conv)
  show ?thesis by (simp add: js_trim_def 1 2)
qed

lemma js_trim_number_input: "js_trim (number_input_value raw) = number_input_value raw"
proof (cases "valid_floating_point_number raw")
  case True
  from valid_last [OF True] digit_not_special [of "last raw"] show ?thesis
    by (simp add: number_input_value_def True js_trim_id)
next
  case False
  then show ?thesis by (simp add: number_input_value_def js_trim_def)
qed





section \<open>Tax brackets\<close>





section \<open>Lock state\<close>

text \<open>
  Claim C6. \<open>isFormLocked\<close> is true exactly when one of its three sources is
  affirmative, tried in this order: the form's \<open>data-locked\<close> attribute equal to
  \<open>'true'\<close>; the \<open>is_locked\<close> input present with a value that is \<open>true\<close>, \<open>1\<close> or \<open>on\<close>
  once lower-cased; the global flag equal to the boolean \<open>true\<close>. In particular, when
  the form's attribute is not affirmative and the input holds \<open>on\<close> in any letter case,
  the form is locked.
\<close>

theorem lock_state_sources:
  "isFormLocked env =
     (form_data_locked env = Some (Some ''true'') \<or>
      (\<exists>v. is_locked_input env = Some v \<and> toLowerCase v \<in> {''true'', ''1'', ''on''}) \<or>
      SALARY_SETTING_LOCKED env = Some (JBool True))
   \<and> (form_data_locked env \<noteq> Some (Some ''true'') \<and> is_locked_input env = Some v \<and>
        toLowerCase v = ''on'' \<longrightarrow> isFormLocked env)"
  by (auto simp: isFormLocked_def split: option.splits)

text \<open>The form's attribute says \<open>false\<close>, the input holds \<open>On\<close>, the global is not
  defined: locked.\<close>

theorem lock_state_sources_witness:
  "isFormLocked \<lparr> form_data_locked = Some (Some ''false''), is_locked_input = Some ''On'',
                  SALARY_SETTING_LOCKED = None \<rparr>"
proof -
  have low: "toLowerCase ''On'' = ''on''" by code_simp
  show ?thesis
    using lock_state_sources [of "\<lparr> form_data_locked = Some (Some ''false''), is_locked_input = Some ''On'',
                  SALARY_SETTING_LOCKED = None \<rparr>" "''On''"] low
    by simp
qed

section \<open>Basic components with the same key\<close>



section \<open>Records with a missing required field\<close>

lemma updateBasicComponentsJSON_proj:
  "updateBasicComponentsJSON st =
     st\<lparr> totalPercentage_textContent :=
           toFixed2 (snd (snd (basic_forEach (children (basicComponentsContainer st)) [] (Finite 0)))),
         totalPercentage_className :=
           (if js_less (Math_abs (js_sub (snd (snd (basic_forEach (children (basicComponentsContainer st)) [] (Finite 0))))
                                    (Finite 100))) (Finite (1 / 100))
            then ''percentage-valid'' else ''percentage-invalid''),
         hiddenBasicComponents :=
           Stringified (JObj (fst (snd (basic_forEach (children (basicComponentsContainer st)) [] (Finite 0))))),
         basicComponentsContainer :=
           updateContainerState ((basicComponentsContainer st)
             \<lparr>children := fst (basic_forEach (children (basicComponentsContainer st)) [] (Finite 0))\<rparr>) \<rparr>"
  by (simp add: updateBasicComponentsJSON_def split: prod.splits)

lemma basic_forEach_update_entered:
  "map (\<lambda>(k, item). (k, comp_name item, comp_code item, comp_percentage item))
     (children (basicComponentsContainer (updateBasicComponentsJSON st))) =
   map (\<lambda>(k, item). (k, comp_name item, comp_code item, comp_percentage item))
     (children (basicComponentsContainer st))"
  by (simp add: updateBasicComponentsJSON_proj updateContainerState_def basic_forEach_entered)

text \<open>
  Claim C8. A record that misses a required field contributes nothing to the canonical
  form of its section: the form is the one the section would have without the record.
  The required fields are name and code for a Basic Component; the name for an
  Allowance, a Relief, an Other Deduction and an Income Item; the rate for a Tax Bracket;
  name and percentage for a Statutory Deduction. Serializing removes no record: every
  update function leaves the records of its container in place, with the values
  entered (for Basic Components only the example amount shown beside a record is
  rewritten), and writes the canonical form of these records into the hidden field.
\<close>

theorem missing_required_field_excluded:
  "(basic_name b = [] \<or> basic_code b = [] \<longrightarrow>
      snd (basic_forEach (bs @ (i, b) # bs') [] (Finite 0)) = snd (basic_forEach (bs @ bs') [] (Finite 0)))
   \<and> (js_trim (text_input_value (allow_name a)) = [] \<longrightarrow>
      entries allowance_entry (al @ (i, a) # al') = entries allowance_entry (al @ al'))
   \<and> (js_trim (text_input_value (relief_name r)) = [] \<longrightarrow>
      entries relief_entry (rl @ (i, r) # rl') = entries relief_entry (rl @ rl'))
   \<and> (isNaN (parseFloat (number_input_value (bracket_rate t))) \<longrightarrow>
      entries bracket_entry (tb @ (i, t) # tb') = entries bracket_entry (tb @ tb'))
   \<and> (js_trim (text_input_value (stat_name s)) = [] \<or>
       isNaN (parseFloat (number_input_value (stat_percentage s))) \<longrightarrow>
      entries statutory_entry (sl @ (i, s) # sl') = entries statutory_entry (sl @ sl'))
   \<and> (js_trim (text_input_value (other_name d)) = [] \<longrightarrow>
      entries other_entry (dl @ (i, d) # dl') = entries other_entry (dl @ dl'))
   \<and> (js_trim (text_input_value (income_name n)) = [] \<longrightarrow>
      entries income_entry (nl @ (i, n) # nl') = entries income_entry (nl @ nl'))
   \<and> map (\<lambda>(k, item). (k, comp_name item, comp_code item, comp_percentage item))
        (children (basicComponentsContainer (updateBasicComponentsJSON st))) =
      map (\<lambda>(k, item). (k, comp_name item, comp_code item, comp_percentage item))
        (children (basicComponentsContainer st))
   \<and> children (allowancesContainer (updateAllowancesJSON st)) = children (allowancesContainer st)
   \<and> children (reliefsContainer (updateReliefsJSON st)) = children (reliefsContainer st)
   \<and> children (taxBracketsContainer (updateTaxBracketsJSON st)) = children (taxBracketsContainer st)
   \<and> children (statutoryDeductionsContainer (updateStatutoryDeductionsJSON st)) =
       children (statutoryDeductionsContainer st)
   \<and> children (otherDeductionsContainer (updateOtherDeductionsJSON st)) =
       children (otherDeductionsContainer st)
   \<and> children (incomeItemsContainer (updateIncomeItemsJSON st)) = children (incomeItemsContainer st)
   \<and> hiddenBasicComponents (updateBasicComponentsJSON st) =
       Stringified (JObj (fst (snd (basic_forEach (children (basicComponentsContainer st)) [] (Finite 0)))))
   \<and> hiddenAllowances (updateAllowancesJSON st) =
       Stringified (entries allowance_entry (children (allowancesContainer st)))
   \<and> hiddenReliefs (updateReliefsJSON st) =
       Stringified (entries relief_entry (children (reliefsContainer st)))
   \<and> hiddenTaxBrackets (updateTaxBracketsJSON st) =
       Stringified (entries bracket_entry (children (taxBracketsContainer st)))
   \<and> hiddenStatutoryDeductions (updateStatutoryDeductionsJSON st) =
       Stringified (entries statutory_entry (children (statutoryDeductionsContainer st)))
   \<and> hiddenOtherDeductions (updateOtherDeductionsJSON st) =
       Stringified (entries other_entry (children (otherDeductionsContainer st)))
   \<and> hiddenIncomeItems (updateIncomeItemsJSON st) =
       Stringified (entries income_entry (children (incomeItemsContainer st)))"
proof -
  have 1: "basic_name b = [] \<or> basic_code b = [] \<longrightarrow>
      snd (basic_forEach (bs @ (i, b) # bs') [] (Finite 0)) = snd (basic_forEach (bs @ bs') [] (Finite 0))"
    using basic_forEach_skip by blast
  have 2: "js_trim (text_input_value (allow_name a)) = [] \<longrightarrow>
      entries allowance_entry (al @ (i, a) # al') = entries allowance_entry (al @ al')"
    by (simp add: entries_skip allowance_entry_def)
  have 3: "js_trim (text_input_value (relief_name r)) = [] \<longrightarrow>
      entries relief_entry (rl @ (i, r) # rl') = entries relief_entry (rl @ rl')"
    by (simp add: entries_skip relief_entry_def)
  have 4: "isNaN (parseFloat (number_input_value (bracket_rate t))) \<longrightarrow>
      entries bracket_entry (tb @ (i, t) # tb') = entries bracket_entry (tb @ tb')"
    by (simp add: entries_skip bracket_entry_def)
  have 5: "js_trim (text_input_value (stat_name s)) = [] \<or>
       isNaN (parseFloat (number_input_value (stat_percentage s))) \<longrightarrow>
      entries statutory_entry (sl @ (i, s) # sl') = entries statutory_entry (sl @ sl')"
    by (auto simp: entries_skip statutory_entry_def)
  have 6: "js_trim (text_input_value (other_name d)) = [] \<longrightarrow>
      entries other_entry (dl @ (i, d) # dl') = entries other_entry (dl @ dl')"
    by (simp add: entries_skip other_entry_def)
  have 7: "js_trim (text_input_value (income_name n)) = [] \<longrightarrow>
      entries income_entry (nl @ (i, n) # nl') = entries income_entry (nl @ nl')"
    by (simp add: entries_skip income_entry_def)
  have 8: "hiddenBasicComponents (updateBasicComponentsJSON st) =
       Stringified (JObj (fst (snd (basic_forEach (children (basicComponentsContainer st)) [] (Finite 0)))))"
    by (simp add: updateBasicComponentsJSON_proj)
  show ?thesis
    using 1 2 3 4 5 6 7 8 basic_forEach_update_entered [of st]
    by (simp add: updateAllowancesJSON_def updateReliefsJSON_def updateTaxBracketsJSON_def
        updateStatutoryDeductionsJSON_def updateOtherDeductionsJSON_def updateIncomeItemsJSON_def
        updateContainerState_def)
qed

text \<open>A Basic Component with a name and a blank code beside a complete one, and a
  Statutory Deduction with a name and no percentage.\<close>

theorem missing_required_field_excluded_witness:
  "snd (basic_forEach ([] @ (1, \<lparr>comp_name = ''Basic'', comp_code = ''  '', comp_percentage = ''60'', comp_amount = Finite 0\<rparr>) #
                        [(2, \<lparr>comp_name = ''Housing'', comp_code = ''H'', comp_percentage = ''40'', comp_amount = Finite 0\<rparr>)])
         [] (Finite 0)) =
   snd (basic_forEach ([] @ [(2, \<lparr>comp_name = ''Housing'', comp_code = ''H'', comp_percentage = ''40'', comp_amount = Finite 0\<rparr>)])
         [] (Finite 0))
   \<and> entries statutory_entry ([] @ (1, \<lparr>stat_name = ''Pension'', stat_percentage = [], stat_based_on = ''B'', stat_active = True\<rparr>) # []) =
     entries statutory_entry ([] @ [])"
proof -
  let ?b = "\<lparr>comp_name = ''Basic'', comp_code = ''  '', comp_percentage = ''60'', comp_amount = Finite 0\<rparr>"
  let ?s = "\<lparr>stat_name = ''Pension'', stat_percentage = [], stat_based_on = ''B'', stat_active = True\<rparr>"
  have hb: "basic_name ?b = [] \<or> basic_code ?b = []" by code_simp
  have hs: "js_trim (text_input_value (stat_name ?s)) = [] \<or>
            isNaN (parseFloat (number_input_value (stat_percentage ?s)))" by code_simp
  from missing_required_field_excluded [where b = ?b and s = ?s and i = 1 and bs = "[]" and sl = "[]" and sl' = "[]"
      and bs' = "[(2, \<lparr>comp_name = ''Housing'', comp_code = ''H'', comp_percentage = ''40'', comp_amount = Finite 0\<rparr>)]"]
    hb hs
  show ?thesis by blast
qed

section \<open>Numeric fields that do not parse\<close>

lemma order_of_default: "isNaN (parseInt (number_input_value raw)) \<Longrightarrow> order_of raw = Finite 1"
  by (cases "parseInt (number_input_value raw)") (simp_all add: order_of_def)

text \<open>
  Claim C4, as amended. When the input of a numeric field does not parse: the
  percentage and the fixed amount of an Allowance or a Relief are omitted from the
  record's canonical form; the order of an Other Deduction or an Income Item is
  serialized as 1; the percentage of a Basic Component is serialized as 0, not omitted;
  the limit of a Tax Bracket is serialized as \<open>null\<close>; and a Tax Bracket whose rate, or a
  Statutory Deduction whose percentage, does not parse is excluded as a whole.
\<close>

theorem unparsable_numeric_fields:
  "(isNaN (parseFloat (number_input_value (allow_percentage a))) \<longrightarrow>
      (\<forall>kvs. allowance_entry a = Some (JObj kvs) \<longrightarrow> map_of kvs ''percentage'' = None))
   \<and> (isNaN (parseFloat (number_input_value (allow_fixed_amount a))) \<longrightarrow>
      (\<forall>kvs. allowance_entry a = Some (JObj kvs) \<longrightarrow> map_of kvs ''fixed_amount'' = None))
   \<and> (isNaN (parseFloat (number_input_value (relief_percentage r))) \<longrightarrow>
      (\<forall>kvs. relief_entry r = Some (JObj kvs) \<longrightarrow> map_of kvs ''percentage'' = None))
   \<and> (isNaN (parseFloat (number_input_value (relief_fixed_amount r))) \<longrightarrow>
      (\<forall>kvs. relief_entry r = Some (JObj kvs) \<longrightarrow> map_of kvs ''fixed_amount'' = None))
   \<and> (isNaN (parseInt (number_input_value (other_order d))) \<longrightarrow>
      (\<forall>kvs. other_entry d = Some (JObj kvs) \<longrightarrow> map_of kvs ''order'' = Some (JNum 1)))
   \<and> (isNaN (parseInt (number_input_value (income_order n))) \<longrightarrow>
      (\<forall>kvs. income_entry n = Some (JObj kvs) \<longrightarrow> map_of kvs ''order'' = Some (JNum 1)))
   \<and> (isNaN (parseFloat (number_input_value (comp_percentage b))) \<longrightarrow>
      basic_record b = JObj [(''code'', JStr (basic_code b)), (''percentage'', JNum 0),
                             (''name'', JStr (basic_name b))])
   \<and> (isNaN (parseFloat (number_input_value (bracket_limit t))) \<longrightarrow>
      (\<forall>kvs. bracket_entry t = Some (JObj kvs) \<longrightarrow> map_of kvs ''limit'' = Some JNull))
   \<and> (isNaN (parseFloat (number_input_value (bracket_rate t))) \<longrightarrow> bracket_entry t = None)
   \<and> (isNaN (parseFloat (number_input_value (stat_percentage s))) \<longrightarrow> statutory_entry s = None)"
proof -
  have 1: "isNaN (parseFloat (number_input_value (allow_percentage a))) \<longrightarrow>
      (\<forall>kvs. allowance_entry a = Some (JObj kvs) \<longrightarrow> map_of kvs ''percentage'' = None)"
    by (auto simp: allowance_entry_def Let_def split: if_splits)
  have 2: "isNaN (parseFloat (number_input_value (allow_fixed_amount a))) \<longrightarrow>
      (\<forall>kvs. allowance_entry a = Some (JObj kvs) \<longrightarrow> map_of kvs ''fixed_amount'' = None)"
    by (auto simp: allowance_entry_def Let_def split: if_splits)
  have 3: "isNaN (parseFloat (number_input_value (relief_percentage r))) \<longrightarrow>
      (\<forall>kvs. relief_entry r = Some (JObj kvs) \<longrightarrow> map_of kvs ''percentage'' = None)"
    by (auto simp: relief_entry_def Let_def split: if_splits)
  have 4: "isNaN (parseFloat (number_input_value (relief_fixed_amount r))) \<longrightarrow>
      (\<forall>kvs. relief_entry r = Some (JObj kvs) \<longrightarrow> map_of kvs ''fixed_amount'' = None)"
    by (auto simp: relief_entry_def Let_def split: if_splits)
  have 5: "isNaN (parseInt (number_input_value (other_order d))) \<longrightarrow>
      (\<forall>kvs. other_entry d = Some (JObj kvs) \<longrightarrow> map_of kvs ''order'' = Some (JNum 1))"
    by (auto simp: other_entry_def Let_def order_of_default split: if_splits)
  have 6: "isNaN (parseInt (number_input_value (income_order n))) \<longrightarrow>
      (\<forall>kvs. income_entry n = Some (JObj kvs) \<longrightarrow> map_of kvs ''order'' = Some (JNum 1))"
    by (auto simp: income_entry_def Let_def order_of_default split: if_splits)
  have 7: "isNaN (parseFloat (number_input_value (comp_percentage b))) \<longrightarrow>
      basic_record b = JObj [(''code'', JStr (basic_code b)), (''percentage'', JNum 0),
                             (''name'', JStr (basic_name b))]"
    by (cases "parseFloat (number_input_value (comp_percentage b))")
       (simp_all add: basic_record_def basic_percentage_def)
  have 8: "isNaN (parseFloat (number_input_value (bracket_limit t))) \<longrightarrow>
      (\<forall>kvs. bracket_entry t = Some (JObj kvs) \<longrightarrow> map_of kvs ''limit'' = Some JNull)"
    by (cases "parseFloat (number_input_value (bracket_limit t))")
       (auto simp: bracket_entry_def Let_def js_trim_number_input split: if_splits)
  have 9: "isNaN (parseFloat (number_input_value (bracket_rate t))) \<longrightarrow> bracket_entry t = None"
    by (simp add: bracket_entry_def)
  have 10: "isNaN (parseFloat (number_input_value (stat_percentage s))) \<longrightarrow> statutory_entry s = None"
    by (simp add: statutory_entry_def)
  from 1 2 3 4 5 6 7 8 9 10 show ?thesis by blast
qed

text \<open>A Basic Component with name and code and a blank percentage: the input does not
  parse, and the record's canonical form carries \<open>percentage: 0\<close>, where claim C4 says
  the field is omitted.\<close>

theorem basic_percentage_blank_is_zero:
  "parseFloat (number_input_value
      (comp_percentage \<lparr>comp_name = ''Basic'', comp_code = ''B'', comp_percentage = [], comp_amount = Finite 0\<rparr>)) = NaN
   \<and> fst (snd (basic_forEach
        [(1, \<lparr>comp_name = ''Basic'', comp_code = ''B'', comp_percentage = [], comp_amount = Finite 0\<rparr>)]
        [] (Finite 0))) =
     [(''basic'', JObj [(''code'', JStr ''B''), (''percentage'', JNum 0), (''name'', JStr ''Basic'')])]"
  by code_simp

text \<open>An Allowance whose percentage input is not a number, and an Other Deduction with
  a blank order.\<close>

theorem unparsable_numeric_fields_witness:
  "map_of [(''name'', JStr ''Housing''), (''is_active'', JBool True),
           (''calculation_type'', JStr ''percentage''), (''annual_only'', JBool False),
           (''based_on'', JStr ''TOTAL'')] ''percentage'' = None
   \<and> map_of [(''name'', JStr ''Loan''), (''display_rule'', JStr ''always_show''), (''order'', JNum 1)] ''order'' =
       Some (JNum 1)"
proof -
  let ?a = "\<lparr>allow_name = ''Housing'', allow_calc_type = ''percentage'', allow_active = True,
             allow_annual = False, percentage_fields_display = ''block'', allow_percentage = ''abc'',
             allow_based_on = ''TOTAL'', fixed_fields_display = ''none'', allow_fixed_amount = []\<rparr>"
  let ?d = "\<lparr>other_name = ''Loan'', other_display_rule = ''always_show'', other_linked_to = [],
             other_order = []\<rparr>"
  have ha: "isNaN (parseFloat (number_input_value (allow_percentage ?a)))" by code_simp
  have ea: "allowance_entry ?a = Some (JObj [(''name'', JStr ''Housing''), (''is_active'', JBool True),
           (''calculation_type'', JStr ''percentage''), (''annual_only'', JBool False),
           (''based_on'', JStr ''TOTAL'')])" by code_simp
  have hd: "isNaN (parseInt (number_input_value (other_order ?d)))" by code_simp
  have ed: "other_entry ?d = Some (JObj [(''name'', JStr ''Loan''), (''display_rule'', JStr ''always_show''),
           (''order'', JNum 1)])" by code_simp
  from unparsable_numeric_fields [where a = ?a and d = ?d] ha ea hd ed
  show ?thesis by blast
qed

section \<open>Switching the calculation type and back\<close>

lemma collect_list_update:
  "i < length xs \<Longrightarrow> entry item = entry (snd (xs ! i)) \<Longrightarrow>
   collect entry (xs[i := (k, item)]) = collect entry xs"
proof (induction xs arbitrary: i)
  case Nil
  then show ?case by simp
next
  case (Cons p ps)
  then show ?case by (cases i) (auto split: option.splits)
qed

lemma allowance_entry_display:
  "allowance_entry (item\<lparr>percentage_fields_display := x, fixed_fields_display := y\<rparr>) = allowance_entry item"
  by (simp add: allowance_entry_def Let_def)

lemma relief_entry_display:
  "relief_entry (item\<lparr>relief_percentage_fields_display := x, relief_fixed_fields_display := y\<rparr>) =
   relief_entry item"
  by (simp add: relief_entry_def Let_def)

lemma select_calc_type_children:
  "i < length (children (allowancesContainer st)) \<Longrightarrow>
   children (allowancesContainer (select_calc_type i v st)) =
     (children (allowancesContainer st))
       [i := (fst (children (allowancesContainer st) ! i),
              (snd (children (allowancesContainer st) ! i))
                \<lparr> allow_calc_type := v,
                   percentage_fields_display := (if v = ''percentage'' then ''block'' else ''none''),
                   fixed_fields_display := (if v = ''fixed'' then ''block'' else ''none'') \<rparr>)]"
  by (simp add: select_calc_type_def Let_def updateAllowancesJSON_def updateContainerState_def)

lemma select_calc_type_hidden:
  "i < length (children (allowancesContainer st)) \<Longrightarrow>
   hiddenAllowances (select_calc_type i v st) =
     Stringified (entries allowance_entry (children (allowancesContainer (select_calc_type i v st))))"
  by (simp add: select_calc_type_def Let_def updateAllowancesJSON_def updateContainerState_def)

lemma select_formula_type_children:
  "i < length (children (reliefsContainer st)) \<Longrightarrow>
   children (reliefsContainer (select_formula_type i v st)) =
     (children (reliefsContainer st))
       [i := (fst (children (reliefsContainer st) ! i),
              (snd (children (reliefsContainer st) ! i))
                \<lparr> relief_formula_type := v,
                   relief_percentage_fields_display :=
                     (if v = ''percentage'' then ''block''
                      else if v = ''percentage_plus_fixed'' then ''block'' else ''none''),
                   relief_fixed_fields_display :=
                     (if v = ''fixed'' then ''block''
                      else if v = ''percentage_plus_fixed'' then ''block'' else ''none'') \<rparr>)]"
  by (simp add: select_formula_type_def Let_def updateReliefsJSON_def updateContainerState_def)

lemma select_formula_type_hidden:
  "i < length (children (reliefsContainer st)) \<Longrightarrow>
   hiddenReliefs (select_formula_type i v st) =
     Stringified (entries relief_entry (children (reliefsContainer (select_formula_type i v st))))"
  by (simp add: select_formula_type_def Let_def updateReliefsJSON_def updateContainerState_def)

lemma map_update_same:
  "i < length xs \<Longrightarrow> f y = f (xs ! i) \<Longrightarrow> map f (xs[i := y]) = map f xs"
proof (induction xs arbitrary: i)
  case Nil
  then show ?case by simp
next
  case (Cons p ps)
  then show ?case by (cases i) auto
qed

lemma allowance_type_back:
  "allow_calc_type item = t0 \<Longrightarrow>
   item\<lparr>allow_calc_type := t0, percentage_fields_display := a, fixed_fields_display := b\<rparr> =
   item\<lparr>percentage_fields_display := a, fixed_fields_display := b\<rparr>"
  by (cases item) simp

lemma relief_type_back:
  "relief_formula_type item = f0 \<Longrightarrow>
   item\<lparr>relief_formula_type := f0, relief_percentage_fields_display := a, relief_fixed_fields_display := b\<rparr> =
   item\<lparr>relief_percentage_fields_display := a, relief_fixed_fields_display := b\<rparr>"
  by (cases item) simp

text \<open>
  Claim C7. Picking another calculation type for an Allowance changes no value entered
  in the record: name, check boxes, percentage, based-on and fixed amount stay as they
  were, also in the group that is now hidden. Picking the former type again gives back
  the record with all its values, and the canonical form written then is the one the
  serializer gives for the records before the two switches. The same holds for the
  formula type of a Relief.
\<close>

theorem type_switch_and_back:
  "(i < length (children (allowancesContainer st)) \<and>
    allow_calc_type (snd (children (allowancesContainer st) ! i)) = t0 \<longrightarrow>
      map (\<lambda>(k, item). (k, allow_name item, allow_active item, allow_annual item,
                         allow_percentage item, allow_based_on item, allow_fixed_amount item))
          (children (allowancesContainer (select_calc_type i v st))) =
      map (\<lambda>(k, item). (k, allow_name item, allow_active item, allow_annual item,
                         allow_percentage item, allow_based_on item, allow_fixed_amount item))
          (children (allowancesContainer st))
    \<and> map (\<lambda>(k, item). (k, allow_name item, allow_calc_type item, allow_active item, allow_annual item,
                         allow_percentage item, allow_based_on item, allow_fixed_amount item))
          (children (allowancesContainer (select_calc_type i t0 (select_calc_type i v st)))) =
      map (\<lambda>(k, item). (k, allow_name item, allow_calc_type item, allow_active item, allow_annual item,
                         allow_percentage item, allow_based_on item, allow_fixed_amount item))
          (children (allowancesContainer st))
    \<and> hiddenAllowances (select_calc_type i t0 (select_calc_type i v st)) =
      hiddenAllowances (updateAllowancesJSON st))
   \<and>
   (j < length (children (reliefsContainer st)) \<and>
    relief_formula_type (snd (children (reliefsContainer st) ! j)) = f0 \<longrightarrow>
      map (\<lambda>(k, item). (k, relief_name item, relief_active item,
                         relief_percentage item, relief_based_on item, relief_fixed_amount item))
          (children (reliefsContainer (select_formula_type j w st))) =
      map (\<lambda>(k, item). (k, relief_name item, relief_active item,
                         relief_percentage item, relief_based_on item, relief_fixed_amount item))
          (children (reliefsContainer st))
    \<and> map (\<lambda>(k, item). (k, relief_name item, relief_formula_type item, relief_active item,
                         relief_percentage item, relief_based_on item, relief_fixed_amount item))
          (children (reliefsContainer (select_formula_type j f0 (select_formula_type j w st)))) =
      map (\<lambda>(k, item). (k, relief_name item, relief_formula_type item, relief_active item,
                         relief_percentage item, relief_based_on item, relief_fixed_amount item))
          (children (reliefsContainer st))
    \<and> hiddenReliefs (select_formula_type j f0 (select_formula_type j w st)) =
      hiddenReliefs (updateReliefsJSON st))"
proof -
  have allowances:
    "map (\<lambda>(k, item). (k, allow_name item, allow_active item, allow_annual item,
                         allow_percentage item, allow_based_on item, allow_fixed_amount item))
          (children (allowancesContainer (select_calc_type i v st))) =
      map (\<lambda>(k, item). (k, allow_name item, allow_active item, allow_annual item,
                         allow_percentage item, allow_based_on item, allow_fixed_amount item))
          (children (allowancesContainer st))
    \<and> map (\<lambda>(k, item). (k, allow_name item, allow_calc_type item, allow_active item, allow_annual item,
                         allow_percentage item, allow_based_on item, allow_fixed_amount item))
          (children (allowancesContainer (select_calc_type i t0 (select_calc_type i v st)))) =
      map (\<lambda>(k, item). (k, allow_name item, allow_calc_type item, allow_active item, allow_annual item,
                         allow_percentage item, allow_based_on item, allow_fixed_amount item))
          (children (allowancesContainer st))
    \<and> hiddenAllowances (select_calc_type i t0 (select_calc_type i v st)) =
      hiddenAllowances (updateAllowancesJSON st)"
    if i: "i < length (children (allowancesContainer st))"
      and t0: "allow_calc_type (snd (children (allowancesContainer st) ! i)) = t0"
  proof -
    let ?xs = "children (allowancesContainer st)"
    let ?st1 = "select_calc_type i v st"
    have c1: "children (allowancesContainer ?st1) =
        ?xs[i := (fst (?xs ! i),
              (snd (?xs ! i))
                \<lparr> allow_calc_type := v,
                   percentage_fields_display := (if v = ''percentage'' then ''block'' else ''none''),
                   fixed_fields_display := (if v = ''fixed'' then ''block'' else ''none'') \<rparr>)]"
      by (rule select_calc_type_children [OF i])
    have i1: "i < length (children (allowancesContainer ?st1))" by (simp add: c1 i)
    have c2: "children (allowancesContainer (select_calc_type i t0 ?st1)) =
        ?xs[i := (fst (?xs ! i),
              (snd (?xs ! i))
                \<lparr> percentage_fields_display := (if t0 = ''percentage'' then ''block'' else ''none''),
                   fixed_fields_display := (if t0 = ''fixed'' then ''block'' else ''none'') \<rparr>)]"
      using select_calc_type_children [OF i1, of t0] i allowance_type_back [OF t0] by (simp add: c1)
    have h2: "hiddenAllowances (select_calc_type i t0 ?st1) =
        Stringified (entries allowance_entry (children (allowancesContainer (select_calc_type i t0 ?st1))))"
      by (rule select_calc_type_hidden [OF i1])
    have e: "entries allowance_entry (children (allowancesContainer (select_calc_type i t0 ?st1))) =
        entries allowance_entry ?xs"
      unfolding c2 entries_def by (simp add: collect_list_update [OF i] allowance_entry_display)
    have p1: "map (\<lambda>(k, item). (k, allow_name item, allow_active item, allow_annual item,
                         allow_percentage item, allow_based_on item, allow_fixed_amount item))
          (children (allowancesContainer ?st1)) =
      map (\<lambda>(k, item). (k, allow_name item, allow_active item, allow_annual item,
                         allow_percentage item, allow_based_on item, allow_fixed_amount item)) ?xs"
      using i by (simp add: c1 map_update_same case_prod_beta)
    have p2: "map (\<lambda>(k, item). (k, allow_name item, allow_calc_type item, allow_active item, allow_annual item,
                         allow_percentage item, allow_based_on item, allow_fixed_amount item))
          (children (allowancesContainer (select_calc_type i t0 ?st1))) =
      map (\<lambda>(k, item). (k, allow_name item, allow_calc_type item, allow_active item, allow_annual item,
                         allow_percentage item, allow_based_on item, allow_fixed_amount item)) ?xs"
      using i by (simp add: c2 map_update_same case_prod_beta)
    have p3: "hiddenAllowances (select_calc_type i t0 ?st1) = hiddenAllowances (updateAllowancesJSON st)"
      by (simp add: h2 e updateAllowancesJSON_def)
    from p1 p2 p3 show ?thesis by blast
  qed
  have reliefs:
    "map (\<lambda>(k, item). (k, relief_name item, relief_active item,
                         relief_percentage item, relief_based_on item, relief_fixed_amount item))
          (children (reliefsContainer (select_formula_type j w st))) =
      map (\<lambda>(k, item). (k, relief_name item, relief_active item,
                         relief_percentage item, relief_based_on item, relief_fixed_amount item))
          (children (reliefsContainer st))
    \<and> map (\<lambda>(k, item). (k, relief_name item, relief_formula_type item, relief_active item,
                         relief_percentage item, relief_based_on item, relief_fixed_amount item))
          (children (reliefsContainer (select_formula_type j f0 (select_formula_type j w st)))) =
      map (\<lambda>(k, item). (k, relief_name item, relief_formula_type item, relief_active item,
                         relief_percentage item, relief_based_on item, relief_fixed_amount item))
          (children (reliefsContainer st))
    \<and> hiddenReliefs (select_formula_type j f0 (select_formula_type j w st)) =
      hiddenReliefs (updateReliefsJSON st)"
    if j: "j < length (children (reliefsContainer st))"
      and f0: "relief_formula_type (snd (children (reliefsContainer st) ! j)) = f0"
  proof -
    let ?xs = "children (reliefsContainer st)"
    let ?st1 = "select_formula_type j w st"
    have c1: "children (reliefsContainer ?st1) =
        ?xs[j := (fst (?xs ! j),
              (snd (?xs ! j))
                \<lparr> relief_formula_type := w,
                   relief_percentage_fields_display :=
                     (if w = ''percentage'' then ''block''
                      else if w = ''percentage_plus_fixed'' then ''block'' else ''none''),
                   relief_fixed_fields_display :=
                     (if w = ''fixed'' then ''block''
                      else if w = ''percentage_plus_fixed'' then ''block'' else ''none'') \<rparr>)]"
      by (rule select_formula_type_children [OF j])
    have j1: "j < length (children (reliefsContainer ?st1))" by (simp add: c1 j)
    have c2: "children (reliefsContainer (select_formula_type j f0 ?st1)) =
        ?xs[j := (fst (?xs ! j),
              (snd (?xs ! j))
                \<lparr> relief_percentage_fields_display :=
                     (if f0 = ''percentage'' then ''block''
                      else if f0 = ''percentage_plus_fixed'' then ''block'' else ''none''),
                   relief_fixed_fields_display :=
                     (if f0 = ''fixed'' then ''block''
                      else if f0 = ''percentage_plus_fixed'' then ''block'' else ''none'') \<rparr>)]"
      using select_formula_type_children [OF j1, of f0] j relief_type_back [OF f0] by (simp add: c1)
    have h2: "hiddenReliefs (select_formula_type j f0 ?st1) =
        Stringified (entries relief_entry (children (reliefsContainer (select_formula_type j f0 ?st1))))"
      by (rule select_formula_type_hidden [OF j1])
    have e: "entries relief_entry (children (reliefsContainer (select_formula_type j f0 ?st1))) =
        entries relief_entry ?xs"
      unfolding c2 entries_def by (simp add: collect_list_update [OF j] relief_entry_display)
    have p1: "map (\<lambda>(k, item). (k, relief_name item, relief_active item,
                         relief_percentage item, relief_based_on item, relief_fixed_amount item))
          (children (reliefsContainer ?st1)) =
      map (\<lambda>(k, item). (k, relief_name item, relief_active item,
                         relief_percentage item, relief_based_on item, relief_fixed_amount item)) ?xs"
      using j by (simp add: c1 map_update_same case_prod_beta)
    have p2: "map (\<lambda>(k, item). (k, relief_name item, relief_formula_type item, relief_active item,
                         relief_percentage item, relief_based_on item, relief_fixed_amount item))
          (children (reliefsContainer (select_formula_type j f0 ?st1))) =
      map (\<lambda>(k, item). (k, relief_name item, relief_formula_type item, relief_active item,
                         relief_percentage item, relief_based_on item, relief_fixed_amount item)) ?xs"
      using j by (simp add: c2 map_update_same case_prod_beta)
    have p3: "hiddenReliefs (select_formula_type j f0 ?st1) = hiddenReliefs (updateReliefsJSON st)"
      by (simp add: h2 e updateReliefsJSON_def)
    from p1 p2 p3 show ?thesis by blast
  qed
  from allowances reliefs show ?thesis by blast
qed

text \<open>The Allowance of the specification: percentage 10 based on TOTAL, switched to
  \<open>fixed\<close> and back to \<open>percentage\<close>.\<close>

theorem type_switch_and_back_witness:
  "hiddenAllowances
     (select_calc_type 0 ''percentage''
        (select_calc_type 0 ''fixed''
           (blank_page\<lparr>allowancesContainer :=
              \<lparr>children = [(1, \<lparr>allow_name = ''Housing'', allow_calc_type = ''percentage'',
                   allow_active = True, allow_annual = False, percentage_fields_display = ''block'',
                   allow_percentage = ''10'', allow_based_on = ''TOTAL'',
                   fixed_fields_display = ''none'', allow_fixed_amount = []\<rparr>)],
               has_items = True\<rparr>\<rparr>))) =
   Stringified (JArr [JObj [(''name'', JStr ''Housing''), (''is_active'', JBool True),
                            (''calculation_type'', JStr ''percentage''), (''annual_only'', JBool False),
                            (''percentage'', JNum 10), (''based_on'', JStr ''TOTAL'')]])"
proof -
  let ?st = "blank_page\<lparr>allowancesContainer :=
              \<lparr>children = [(1, \<lparr>allow_name = ''Housing'', allow_calc_type = ''percentage'',
                   allow_active = True, allow_annual = False, percentage_fields_display = ''block'',
                   allow_percentage = ''10'', allow_based_on = ''TOTAL'',
                   fixed_fields_display = ''none'', allow_fixed_amount = []\<rparr>)],
               has_items = True\<rparr>\<rparr>"
  have pre: "0 < length (children (allowancesContainer ?st)) \<and>
             allow_calc_type (snd (children (allowancesContainer ?st) ! 0)) = ''percentage''"
    by (simp add: blank_page_def)
  have before: "hiddenAllowances (updateAllowancesJSON ?st) =
      Stringified (JArr [JObj [(''name'', JStr ''Housing''), (''is_active'', JBool True),
                            (''calculation_type'', JStr ''percentage''), (''annual_only'', JBool False),
                            (''percentage'', JNum 10), (''based_on'', JStr ''TOTAL'')]])"
    by code_simp
  from type_switch_and_back [where st = ?st and i = 0 and ?t0.0 = "''percentage''" and v = "''fixed''"]
    pre
  have "hiddenAllowances (select_calc_type 0 ''percentage'' (select_calc_type 0 ''fixed'' ?st)) =
        hiddenAllowances (updateAllowancesJSON ?st)"
    by blast
  with before show ?thesis by (simp only:)
qed

section \<open>Loading\<close>

subsection \<open>What a load step leaves alone\<close>

lemma foldl_frame:
  "(\<And>s d. X (add d s) = X s) \<Longrightarrow> X (foldl (\<lambda>s d. add (Some d) s) st ds) = X st"
  by (induction ds arbitrary: st) simp_all

lemma load_array_frame:
  "(\<And>s d. X (add d s) = X s) \<Longrightarrow> X (load_array parsed edit add st) = X st"
  using foldl_frame [of X add] by (simp add: load_array_def)

lemma load_components_frame:
  "(\<And>s d. X (addBasicComponent d s) = X s) \<Longrightarrow> X (fst (load_components cs st)) = X st"
  by (induction cs arbitrary: st) simp_all

lemma load_basic_frame:
  "(\<And>s d. X (addBasicComponent d s) = X s) \<Longrightarrow> X (load_basic host_parse edit st) = X st"
  using load_components_frame [of X]
  by (auto simp: load_basic_def split: option.splits prod.splits) (metis fst_conv)+

lemma load_basic_others:
  "allowancesContainer (load_basic h e st) = allowancesContainer st"
  "hiddenAllowances (load_basic h e st) = hiddenAllowances st"
  "reliefsContainer (load_basic h e st) = reliefsContainer st"
  "hiddenReliefs (load_basic h e st) = hiddenReliefs st"
  "taxBracketsContainer (load_basic h e st) = taxBracketsContainer st"
  "hiddenTaxBrackets (load_basic h e st) = hiddenTaxBrackets st"
  "statutoryDeductionsContainer (load_basic h e st) = statutoryDeductionsContainer st"
  "hiddenStatutoryDeductions (load_basic h e st) = hiddenStatutoryDeductions st"
  "otherDeductionsContainer (load_basic h e st) = otherDeductionsContainer st"
  "hiddenOtherDeductions (load_basic h e st) = hiddenOtherDeductions st"
  "incomeItemsContainer (load_basic h e st) = incomeItemsContainer st"
  "hiddenIncomeItems (load_basic h e st) = hiddenIncomeItems st"
  by (rule load_basic_frame, simp add: addBasicComponent_def updateBasicComponentsJSON_proj)+

lemma load_allowances_others:
  "basicComponentsContainer (load_allowances h e st) = basicComponentsContainer st"
  "hiddenBasicComponents (load_allowances h e st) = hiddenBasicComponents st"
  "reliefsContainer (load_allowances h e st) = reliefsContainer st"
  "hiddenReliefs (load_allowances h e st) = hiddenReliefs st"
  "taxBracketsContainer (load_allowances h e st) = taxBracketsContainer st"
  "hiddenTaxBrackets (load_allowances h e st) = hiddenTaxBrackets st"
  "statutoryDeductionsContainer (load_allowances h e st) = statutoryDeductionsContainer st"
  "hiddenStatutoryDeductions (load_allowances h e st) = hiddenStatutoryDeductions st"
  "otherDeductionsContainer (load_allowances h e st) = otherDeductionsContainer st"
  "hiddenOtherDeductions (load_allowances h e st) = hiddenOtherDeductions st"
  "incomeItemsContainer (load_allowances h e st) = incomeItemsContainer st"
  "hiddenIncomeItems (load_allowances h e st) = hiddenIncomeItems st"
  unfolding load_allowances_def
  by (rule load_array_frame, simp add: addAllowance_def updateAllowancesJSON_def)+

lemma load_reliefs_others:
  "basicComponentsContainer (load_reliefs h e st) = basicComponentsContainer st"
  "hiddenBasicComponents (load_reliefs h e st) = hiddenBasicComponents st"
  "allowancesContainer (load_reliefs h e st) = allowancesContainer st"
  "hiddenAllowances (load_reliefs h e st) = hiddenAllowances st"
  "taxBracketsContainer (load_reliefs h e st) = taxBracketsContainer st"
  "hiddenTaxBrackets (load_reliefs h e st) = hiddenTaxBrackets st"
  "statutoryDeductionsContainer (load_reliefs h e st) = statutoryDeductionsContainer st"
  "hiddenStatutoryDeductions (load_reliefs h e st) = hiddenStatutoryDeductions st"
  "otherDeductionsContainer (load_reliefs h e st) = otherDeductionsContainer st"
  "hiddenOtherDeductions (load_reliefs h e st) = hiddenOtherDeductions st"
  "incomeItemsContainer (load_reliefs h e st) = incomeItemsContainer st"
  "hiddenIncomeItems (load_reliefs h e st) = hiddenIncomeItems st"
  unfolding load_reliefs_def
  by (rule load_array_frame, simp add: addRelief_def updateReliefsJSON_def)+

lemma load_brackets_others:
  "basicComponentsContainer (load_brackets h e st) = basicComponentsContainer st"
  "hiddenBasicComponents (load_brackets h e st) = hiddenBasicComponents st"
  "allowancesContainer (load_brackets h e st) = allowancesContainer st"
  "hiddenAllowances (load_brackets h e st) = hiddenAllowances st"
  "reliefsContainer (load_brackets h e st) = reliefsContainer st"
  "hiddenReliefs (load_brackets h e st) = hiddenReliefs st"
  "statutoryDeductionsContainer (load_brackets h e st) = statutoryDeductionsContainer st"
  "hiddenStatutoryDeductions (load_brackets h e st) = hiddenStatutoryDeductions st"
  "otherDeductionsContainer (load_brackets h e st) = otherDeductionsContainer st"
  "hiddenOtherDeductions (load_brackets h e st) = hiddenOtherDeductions st"
  "incomeItemsContainer (load_brackets h e st) = incomeItemsContainer st"
  "hiddenIncomeItems (load_brackets h e st) = hiddenIncomeItems st"
  unfolding load_brackets_def
  by (rule load_array_frame, simp add: addTaxBracket_def updateTaxBracketsJSON_def)+

lemma load_statutory_others:
  "basicComponentsContainer (load_statutory h e st) = basicComponentsContainer st"
  "hiddenBasicComponents (load_statutory h e st) = hiddenBasicComponents st"
  "allowancesContainer (load_statutory h e st) = allowancesContainer st"
  "hiddenAllowances (load_statutory h e st) = hiddenAllowances st"
  "reliefsContainer (load_statutory h e st) = reliefsContainer st"
  "hiddenReliefs (load_statutory h e st) = hiddenReliefs st"
  "taxBracketsContainer (load_statutory h e st) = taxBracketsContainer st"
  "hiddenTaxBrackets (load_statutory h e st) = hiddenTaxBrackets st"
  "otherDeductionsContainer (load_statutory h e st) = otherDeductionsContainer st"
  "hiddenOtherDeductions (load_statutory h e st) = hiddenOtherDeductions st"
  "incomeItemsContainer (load_statutory h e st) = incomeItemsContainer st"
  "hiddenIncomeItems (load_statutory h e st) = hiddenIncomeItems st"
  unfolding load_statutory_def
  by (rule load_array_frame, simp add: addStatutoryDeduction_def updateStatutoryDeductionsJSON_def)+

lemma load_others_others:
  "basicComponentsContainer (load_others h e st) = basicComponentsContainer st"
  "hiddenBasicComponents (load_others h e st) = hiddenBasicComponents st"
  "allowancesContainer (load_others h e st) = allowancesContainer st"
  "hiddenAllowances (load_others h e st) = hiddenAllowances st"
  "reliefsContainer (load_others h e st) = reliefsContainer st"
  "hiddenReliefs (load_others h e st) = hiddenReliefs st"
  "taxBracketsContainer (load_others h e st) = taxBracketsContainer st"
  "hiddenTaxBrackets (load_others h e st) = hiddenTaxBrackets st"
  "statutoryDeductionsContainer (load_others h e st) = statutoryDeductionsContainer st"
  "hiddenStatutoryDeductions (load_others h e st) = hiddenStatutoryDeductions st"
  "incomeItemsContainer (load_others h e st) = incomeItemsContainer st"
  "hiddenIncomeItems (load_others h e st) = hiddenIncomeItems st"
  unfolding load_others_def
  by (rule load_array_frame, simp add: addOtherDeduction_def updateOtherDeductionsJSON_def)+

lemma load_income_others:
  "basicComponentsContainer (load_income h e st) = basicComponentsContainer st"
  "hiddenBasicComponents (load_income h e st) = hiddenBasicComponents st"
  "allowancesContainer (load_income h e st) = allowancesContainer st"
  "hiddenAllowances (load_income h e st) = hiddenAllowances st"
  "reliefsContainer (load_income h e st) = reliefsContainer st"
  "hiddenReliefs (load_income h e st) = hiddenReliefs st"
  "taxBracketsContainer (load_income h e st) = taxBracketsContainer st"
  "hiddenTaxBrackets (load_income h e st) = hiddenTaxBrackets st"
  "statutoryDeductionsContainer (load_income h e st) = statutoryDeductionsContainer st"
  "hiddenStatutoryDeductions (load_income h e st) = hiddenStatutoryDeductions st"
  "otherDeductionsContainer (load_income h e st) = otherDeductionsContainer st"
  "hiddenOtherDeductions (load_income h e st) = hiddenOtherDeductions st"
  unfolding load_income_def
  by (rule load_array_frame, simp add: addIncomeItem_def updateIncomeItemsJSON_def)+

subsection \<open>The records a section holds after loading\<close>

lemma foldl_add_children:
  assumes "\<And>d s. children (C (add d s)) = children (C s) @ [(componentCounter s + 1, tmpl d)]"
  shows "map snd (children (C (foldl (\<lambda>s d. add (Some d) s) st ds))) =
         map snd (children (C st)) @ map (\<lambda>d. tmpl (Some d)) ds"
  by (induction ds arbitrary: st) (simp_all add: assms)

lemma load_array_children:
  assumes "\<And>d s. children (C (add d s)) = children (C s) @ [(componentCounter s + 1, tmpl d)]"
  shows "map snd (children (C (load_array parsed edit add st))) =
         map snd (children (C st)) @
           (if array_items parsed \<noteq> [] then map (\<lambda>d. tmpl (Some d)) (array_items parsed)
            else if edit then [] else [tmpl None])"
  using foldl_add_children [of C add tmpl, OF assms] by (simp add: load_array_def assms)

lemma clear_containers_simps:
  "children (basicComponentsContainer (clear_containers st)) = []"
  "children (allowancesContainer (clear_containers st)) = []"
  "children (reliefsContainer (clear_containers st)) = []"
  "children (taxBracketsContainer (clear_containers st)) = []"
  "children (statutoryDeductionsContainer (clear_containers st)) = []"
  "children (otherDeductionsContainer (clear_containers st)) = []"
  "children (incomeItemsContainer (clear_containers st)) = []"
  "hiddenBasicComponents (clear_containers st) = hiddenBasicComponents st"
  "hiddenAllowances (clear_containers st) = hiddenAllowances st"
  "hiddenReliefs (clear_containers st) = hiddenReliefs st"
  "hiddenTaxBrackets (clear_containers st) = hiddenTaxBrackets st"
  "hiddenStatutoryDeductions (clear_containers st) = hiddenStatutoryDeductions st"
  "hiddenOtherDeductions (clear_containers st) = hiddenOtherDeductions st"
  "hiddenIncomeItems (clear_containers st) = hiddenIncomeItems st"
  "isEditMode (clear_containers st) = isEditMode st"
  by (simp_all add: clear_containers_def isEditMode_def)

lemmas load_others =
  load_basic_others load_allowances_others load_reliefs_others load_brackets_others
  load_statutory_others load_others_others load_income_others

lemma addAllowance_children:
  "children (allowancesContainer (addAllowance d s)) = children (allowancesContainer s) @ [(componentCounter s + 1, allowance_template d)]"
  by (simp add: addAllowance_def updateAllowancesJSON_def updateContainerState_def appendChild_def)

lemma loaded_allowances:
  "map snd (children (allowancesContainer (loadExistingData h st))) =
     (if array_items (parse_hidden h ''[]'' (hiddenAllowances st)) \<noteq> []
      then map (\<lambda>d. allowance_template (Some d)) (array_items (parse_hidden h ''[]'' (hiddenAllowances st)))
      else if isEditMode st then [] else [allowance_template None])"
  using load_array_children [of allowancesContainer addAllowance allowance_template, OF addAllowance_children]
  by (simp add: loadExistingData_def Let_def load_others clear_containers_simps load_allowances_def)

lemma addRelief_children:
  "children (reliefsContainer (addRelief d s)) = children (reliefsContainer s) @ [(componentCounter s + 1, relief_template d)]"
  by (simp add: addRelief_def updateReliefsJSON_def updateContainerState_def appendChild_def)

lemma loaded_reliefs:
  "map snd (children (reliefsContainer (loadExistingData h st))) =
     (if array_items (parse_hidden h ''[]'' (hiddenReliefs st)) \<noteq> []
      then map (\<lambda>d. relief_template (Some d)) (array_items (parse_hidden h ''[]'' (hiddenReliefs st)))
      else if isEditMode st then [] else [relief_template None])"
  using load_array_children [of reliefsContainer addRelief relief_template, OF addRelief_children]
  by (simp add: loadExistingData_def Let_def load_others clear_containers_simps load_reliefs_def)

lemma addTaxBracket_children:
  "children (taxBracketsContainer (addTaxBracket d s)) = children (taxBracketsContainer s) @ [(componentCounter s + 1, bracket_template d)]"
  by (simp add: addTaxBracket_def updateTaxBracketsJSON_def updateContainerState_def appendChild_def)

lemma loaded_brackets:
  "map snd (children (taxBracketsContainer (loadExistingData h st))) =
     (if array_items (parse_hidden h ''[]'' (hiddenTaxBrackets st)) \<noteq> []
      then map (\<lambda>d. bracket_template (Some d)) (array_items (parse_hidden h ''[]'' (hiddenTaxBrackets st)))
      else if isEditMode st then [] else [bracket_template None])"
  using load_array_children [of taxBracketsContainer addTaxBracket bracket_template, OF addTaxBracket_children]
  by (simp add: loadExistingData_def Let_def load_others clear_containers_simps load_brackets_def)

lemma addStatutoryDeduction_children:
  "children (statutoryDeductionsContainer (addStatutoryDeduction d s)) = children (statutoryDeductionsContainer s) @ [(componentCounter s + 1, statutory_template d)]"
  by (simp add: addStatutoryDeduction_def updateStatutoryDeductionsJSON_def updateContainerState_def appendChild_def)

lemma loaded_statutory:
  "map snd (children (statutoryDeductionsContainer (loadExistingData h st))) =
     (if array_items (parse_hidden h ''[]'' (hiddenStatutoryDeductions st)) \<noteq> []
      then map (\<lambda>d. statutory_template (Some d)) (array_items (parse_hidden h ''[]'' (hiddenStatutoryDeductions st)))
      else if isEditMode st then [] else [statutory_template None])"
  using load_array_children [of statutoryDeductionsContainer addStatutoryDeduction statutory_template, OF addStatutoryDeduction_children]
  by (simp add: loadExistingData_def Let_def load_others clear_containers_simps load_statutory_def)

lemma addOtherDeduction_children:
  "children (otherDeductionsContainer (addOtherDeduction d s)) = children (otherDeductionsContainer s) @ [(componentCounter s + 1, other_template d)]"
  by (simp add: addOtherDeduction_def updateOtherDeductionsJSON_def updateContainerState_def appendChild_def)

lemma loaded_others:
  "map snd (children (otherDeductionsContainer (loadExistingData h st))) =
     (if array_items (parse_hidden h ''[]'' (hiddenOtherDeductions st)) \<noteq> []
      then map (\<lambda>d. other_template (Some d)) (array_items (parse_hidden h ''[]'' (hiddenOtherDeductions st)))
      else if isEditMode st then [] else [other_template None])"
  using load_array_children [of otherDeductionsContainer addOtherDeduction other_template, OF addOtherDeduction_children]
  by (simp add: loadExistingData_def Let_def load_others clear_containers_simps load_others_def)

lemma addIncomeItem_children:
  "children (incomeItemsContainer (addIncomeItem d s)) = children (incomeItemsContainer s) @ [(componentCounter s + 1, income_template d)]"
  by (simp add: addIncomeItem_def updateIncomeItemsJSON_def updateContainerState_def appendChild_def)

lemma loaded_income:
  "map snd (children (incomeItemsContainer (loadExistingData h st))) =
     (if array_items (parse_hidden h ''[]'' (hiddenIncomeItems st)) \<noteq> []
      then map (\<lambda>d. income_template (Some d)) (array_items (parse_hidden h ''[]'' (hiddenIncomeItems st)))
      else if isEditMode st then [] else [income_template None])"
  using load_array_children [of incomeItemsContainer addIncomeItem income_template, OF addIncomeItem_children]
  by (simp add: loadExistingData_def Let_def load_others clear_containers_simps load_income_def)

lemma not_edit_mode_parse:
  "\<not> isEditMode st \<Longrightarrow> parse_hidden h ''{}'' (hiddenBasicComponents st) = Some (JObj [])"
  by (auto simp: isEditMode_def parse_hidden_def JSON_parse_def split: hidden.splits)

lemma basic_template_None_amount: "(basic_template None)\<lparr>comp_amount := Finite 0\<rparr> = basic_template None"
  by (simp add: basic_template_def)

lemma basic_name_template_None: "basic_name (basic_template None) = []"
  by (simp add: basic_name_def basic_template_def text_input_value_def js_trim_def get_def or_text_def)

lemma load_basic_empty:
  "parse_hidden h ''{}'' (hiddenBasicComponents st) = Some (JObj []) \<Longrightarrow>
   children (basicComponentsContainer st) = [] \<Longrightarrow>
   map snd (children (basicComponentsContainer (load_basic h edit st))) =
     (if edit then [] else [basic_template None])"
  by (simp add: load_basic_def addBasicComponent_def updateBasicComponentsJSON_proj
      updateContainerState_def appendChild_def basic_name_template_None basic_template_None_amount)

lemma loaded_basic_empty:
  "parse_hidden h ''{}'' (hiddenBasicComponents st) = Some (JObj []) \<Longrightarrow>
   map snd (children (basicComponentsContainer (loadExistingData h st))) =
     (if isEditMode st then [] else [basic_template None])"
  using load_basic_empty [of h "clear_containers st" "isEditMode st"]
  by (simp add: loadExistingData_def Let_def load_others clear_containers_simps)

lemma array_items_empty: "parsed = Some (JArr []) \<Longrightarrow> array_items parsed = []"
  by (simp add: array_items_def)

text \<open>
  Claim C5. After \<open>loadExistingData\<close>, a section whose serialized form is empty (the field
  is empty, or its text parses to the empty array, for Basic Components to the empty
  object) holds exactly one record, the default one of its template, when the page is
  not in edit mode, and no record when it is. Outside edit mode the Basic Components
  form is always empty.
\<close>

theorem default_seeding:
  "(\<not> isEditMode st \<longrightarrow>
      map snd (children (basicComponentsContainer (loadExistingData h st))) = [basic_template None])
   \<and> (isEditMode st \<and> parse_hidden h ''{}'' (hiddenBasicComponents st) = Some (JObj []) \<longrightarrow>
      children (basicComponentsContainer (loadExistingData h st)) = [])
   \<and> (\<not> isEditMode st \<and> parse_hidden h ''[]'' (hiddenAllowances st) = Some (JArr []) \<longrightarrow>
      map snd (children (allowancesContainer (loadExistingData h st))) = [allowance_template None])
   \<and> (isEditMode st \<and> parse_hidden h ''[]'' (hiddenAllowances st) = Some (JArr []) \<longrightarrow>
      children (allowancesContainer (loadExistingData h st)) = [])
   \<and> (\<not> isEditMode st \<and> parse_hidden h ''[]'' (hiddenReliefs st) = Some (JArr []) \<longrightarrow>
      map snd (children (reliefsContainer (loadExistingData h st))) = [relief_template None])
   \<and> (isEditMode st \<and> parse_hidden h ''[]'' (hiddenReliefs st) = Some (JArr []) \<longrightarrow>
      children (reliefsContainer (loadExistingData h st)) = [])
   \<and> (\<not> isEditMode st \<and> parse_hidden h ''[]'' (hiddenTaxBrackets st) = Some (JArr []) \<longrightarrow>
      map snd (children (taxBracketsContainer (loadExistingData h st))) = [bracket_template None])
   \<and> (isEditMode st \<and> parse_hidden h ''[]'' (hiddenTaxBrackets st) = Some (JArr []) \<longrightarrow>
      children (taxBracketsContainer (loadExistingData h st)) = [])
   \<and> (\<not> isEditMode st \<and> parse_hidden h ''[]'' (hiddenStatutoryDeductions st) = Some (JArr []) \<longrightarrow>
      map snd (children (statutoryDeductionsContainer (loadExistingData h st))) = [statutory_template None])
   \<and> (isEditMode st \<and> parse_hidden h ''[]'' (hiddenStatutoryDeductions st) = Some (JArr []) \<longrightarrow>
      children (statutoryDeductionsContainer (loadExistingData h st)) = [])
   \<and> (\<not> isEditMode st \<and> parse_hidden h ''[]'' (hiddenOtherDeductions st) = Some (JArr []) \<longrightarrow>
      map snd (children (otherDeductionsContainer (loadExistingData h st))) = [other_template None])
   \<and> (isEditMode st \<and> parse_hidden h ''[]'' (hiddenOtherDeductions st) = Some (JArr []) \<longrightarrow>
      children (otherDeductionsContainer (loadExistingData h st)) = [])
   \<and> (\<not> isEditMode st \<and> parse_hidden h ''[]'' (hiddenIncomeItems st) = Some (JArr []) \<longrightarrow>
      map snd (children (incomeItemsContainer (loadExistingData h st))) = [income_template None])
   \<and> (isEditMode st \<and> parse_hidden h ''[]'' (hiddenIncomeItems st) = Some (JArr []) \<longrightarrow>
      children (incomeItemsContainer (loadExistingData h st)) = [])"
  using loaded_basic_empty [of h st] not_edit_mode_parse [of st h]
    loaded_allowances [of h st] loaded_reliefs [of h st] loaded_brackets [of h st]
    loaded_statutory [of h st] loaded_others [of h st] loaded_income [of h st]
  by (auto simp: array_items_empty)

text \<open>On the blank page every field is empty and the page is not in edit mode. With a
  Basic Components field that holds a component, the page is in edit mode, and the
  Allowances field \<open>[]\<close> gives no record.\<close>

theorem default_seeding_witness:
  "map snd (children (basicComponentsContainer (loadExistingData (\<lambda>t. None) blank_page))) =
     [basic_template None]
   \<and> map snd (children (allowancesContainer (loadExistingData (\<lambda>t. None) blank_page))) =
     [allowance_template None]
   \<and> children (allowancesContainer
        (loadExistingData
           (\<lambda>t. if t = ''{...}''
                then Some (JObj [(''basic'', JObj [(''code'', JStr ''B''), (''percentage'', JNum 100),
                                                   (''name'', JStr ''Basic'')])])
                else None)
           (blank_page\<lparr>hiddenBasicComponents := Rendered ''{...}'',
                       hiddenAllowances := Rendered ''[]''\<rparr>))) = []"
proof -
  let ?h = "\<lambda>t. if t = ''{...}''
                then Some (JObj [(''basic'', JObj [(''code'', JStr ''B''), (''percentage'', JNum 100),
                                                   (''name'', JStr ''Basic'')])])
                else None"
  let ?st = "blank_page\<lparr>hiddenBasicComponents := Rendered ''{...}'', hiddenAllowances := Rendered ''[]''\<rparr>"
  have a: "\<not> isEditMode blank_page"
    by (simp add: blank_page_def isEditMode_def)
  have b: "parse_hidden (\<lambda>t. None) ''[]'' (hiddenAllowances blank_page) = Some (JArr [])"
    by (simp add: blank_page_def parse_hidden_def JSON_parse_def)
  have c: "isEditMode ?st"
    by (simp add: blank_page_def isEditMode_def)
  have d: "parse_hidden ?h ''[]'' (hiddenAllowances ?st) = Some (JArr [])"
    by (simp add: blank_page_def parse_hidden_def JSON_parse_def)
  note blank = default_seeding [of blank_page "\<lambda>t. None"]
  have 1: "map snd (children (basicComponentsContainer (loadExistingData (\<lambda>t. None) blank_page))) =
             [basic_template None]"
    using blank [THEN conjunct1] a by (rule mp)
  have 2: "map snd (children (allowancesContainer (loadExistingData (\<lambda>t. None) blank_page))) =
             [allowance_template None]"
    using blank [THEN conjunct2, THEN conjunct2, THEN conjunct1] conjI [OF a b] by (rule mp)
  have 3: "children (allowancesContainer (loadExistingData ?h ?st)) = []"
    using default_seeding [of ?st ?h, THEN conjunct2, THEN conjunct2, THEN conjunct2, THEN conjunct1]
      conjI [OF c d] by (rule mp)
  from 1 2 3 show ?thesis by (intro conjI)
qed

text \<open>
  Claim C9. Edit mode is a function of the Basic Components field alone: it holds when
  the field is neither empty nor \<open>{}\<close>. For each of the six other sections, when the
  section's own field gives no element (it is empty, an empty array, not an array, or
  does not parse), the records after loading are decided by edit mode, that is by the
  Basic Components field: none in edit mode, the default record otherwise.
\<close>

theorem edit_mode_from_basic_components_only:
  "(hiddenBasicComponents st1 = hiddenBasicComponents st2 \<longrightarrow> isEditMode st1 = isEditMode st2)
   \<and> isEditMode st =
       (hiddenBasicComponents st \<noteq> Rendered [] \<and> hiddenBasicComponents st \<noteq> Rendered ''{}'' \<and>
        hiddenBasicComponents st \<noteq> Stringified (JObj []))
   \<and> (array_items (parse_hidden h ''[]'' (hiddenAllowances st)) = [] \<longrightarrow>
      map snd (children (allowancesContainer (loadExistingData h st))) =
        (if isEditMode st then [] else [allowance_template None]))
   \<and> (array_items (parse_hidden h ''[]'' (hiddenReliefs st)) = [] \<longrightarrow>
      map snd (children (reliefsContainer (loadExistingData h st))) =
        (if isEditMode st then [] else [relief_template None]))
   \<and> (array_items (parse_hidden h ''[]'' (hiddenTaxBrackets st)) = [] \<longrightarrow>
      map snd (children (taxBracketsContainer (loadExistingData h st))) =
        (if isEditMode st then [] else [bracket_template None]))
   \<and> (array_items (parse_hidden h ''[]'' (hiddenStatutoryDeductions st)) = [] \<longrightarrow>
      map snd (children (statutoryDeductionsContainer (loadExistingData h st))) =
        (if isEditMode st then [] else [statutory_template None]))
   \<and> (array_items (parse_hidden h ''[]'' (hiddenOtherDeductions st)) = [] \<longrightarrow>
      map snd (children (otherDeductionsContainer (loadExistingData h st))) =
        (if isEditMode st then [] else [other_template None]))
   \<and> (array_items (parse_hidden h ''[]'' (hiddenIncomeItems st)) = [] \<longrightarrow>
      map snd (children (incomeItemsContainer (loadExistingData h st))) =
        (if isEditMode st then [] else [income_template None]))"
proof -
  have "isEditMode st =
       (hiddenBasicComponents st \<noteq> Rendered [] \<and> hiddenBasicComponents st \<noteq> Rendered ''{}'' \<and>
        hiddenBasicComponents st \<noteq> Stringified (JObj []))"
    by (cases "hiddenBasicComponents st") (auto simp: isEditMode_def)
  moreover have "hiddenBasicComponents st1 = hiddenBasicComponents st2 \<longrightarrow> isEditMode st1 = isEditMode st2"
    by (simp add: isEditMode_def)
  ultimately show ?thesis
    by (simp add: loaded_allowances loaded_reliefs loaded_brackets loaded_statutory loaded_others
        loaded_income)
qed

text \<open>The same Allowances field \<open>[]\<close>, once beside an empty Basic Components field and
  once beside one that is not empty.\<close>

theorem edit_mode_from_basic_components_only_witness:
  "map snd (children (allowancesContainer
      (loadExistingData (\<lambda>t. None) (blank_page\<lparr>hiddenAllowances := Rendered ''[]''\<rparr>)))) =
     [allowance_template None]
   \<and> map snd (children (allowancesContainer
      (loadExistingData (\<lambda>t. None)
         (blank_page\<lparr>hiddenBasicComponents := Rendered ''{...}'',
                     hiddenAllowances := Rendered ''[]''\<rparr>)))) = []"
proof -
  let ?st1 = "blank_page\<lparr>hiddenAllowances := Rendered ''[]''\<rparr>"
  let ?st2 = "blank_page\<lparr>hiddenBasicComponents := Rendered ''{...}'', hiddenAllowances := Rendered ''[]''\<rparr>"
  have a1: "array_items (parse_hidden (\<lambda>t. None) ''[]'' (hiddenAllowances ?st1)) = []"
    by (simp add: blank_page_def parse_hidden_def JSON_parse_def array_items_def)
  have a2: "array_items (parse_hidden (\<lambda>t. None) ''[]'' (hiddenAllowances ?st2)) = []"
    by (simp add: blank_page_def parse_hidden_def JSON_parse_def array_items_def)
  have e1: "\<not> isEditMode ?st1" by (simp add: blank_page_def isEditMode_def)
  have e2: "isEditMode ?st2" by (simp add: blank_page_def isEditMode_def)
  have "map snd (children (allowancesContainer (loadExistingData (\<lambda>t. None) ?st1))) =
          (if isEditMode ?st1 then [] else [allowance_template None])"
    using edit_mode_from_basic_components_only
            [of _ _ ?st1 "\<lambda>t. None", THEN conjunct2, THEN conjunct2, THEN conjunct1] a1
    by (rule mp)
  with e1 have 1: "map snd (children (allowancesContainer (loadExistingData (\<lambda>t. None) ?st1))) =
             [allowance_template None]"
    by (simp only: if_False)
  have "map snd (children (allowancesContainer (loadExistingData (\<lambda>t. None) ?st2))) =
          (if isEditMode ?st2 then [] else [allowance_template None])"
    using edit_mode_from_basic_components_only
            [of _ _ ?st2 "\<lambda>t. None", THEN conjunct2, THEN conjunct2, THEN conjunct1] a2
    by (rule mp)
  with e2 have 2: "map snd (children (allowancesContainer (loadExistingData (\<lambda>t. None) ?st2))) = []"
    by (simp only: if_True)
  from 1 2 show ?thesis by (intro conjI)
qed

section \<open>Printing and reading numbers\<close>
























section \<open>The submit handler\<close>









subsection \<open>Evaluating the printing of small numbers\<close>




section \<open>Loading a canonical form and serializing it again\<close>

subsection \<open>One record of an array section\<close>









lemma decimal_field_number: "decimal_field (Some (JNum x)) \<Longrightarrow> decimal_number x"
  by (simp add: decimal_field_def)











subsection \<open>Basic components\<close>










subsection \<open>The six array sections\<close>







subsection \<open>The seven sections together\<close>









end
